theory Spec2Isabelle
  imports Complex_Main "HOL-Library.Finite_Map"
begin

section \<open>Go values\<close>

text \<open>
  The parser of \<^verbatim>\<open>internal/parser\<close> works on \<^verbatim>\<open>map[string]any\<close>. The dynamic
  values it inspects are the ones \<^verbatim>\<open>encoding/json\<close> stores in an \<^verbatim>\<open>any\<close> (nil, bool,
  float64, string, \<^verbatim>\<open>[]any\<close>, \<^verbatim>\<open>map[string]any\<close>) and, because \<^verbatim>\<open>getIntField\<close>
  has a branch for each, Go's \<^verbatim>\<open>int\<close> and \<^verbatim>\<open>int64\<close>. A Go map has one value per key
  and no order, so it is a finite map. Slices and maps nested in a value are never
  nil (the decoder allocates them); the one map that can be nil is the decoded
  top-level object, which is an \<open>option\<close> below.

  A float64 is the real number it denotes, or one of the three special values.
  Go's \<^verbatim>\<open>int\<close> is taken to be 64 bits wide.
\<close>

datatype float64 = F64 real | F64PosInf | F64NegInf | F64NaN

datatype json =
    JNil
  | JBool bool
  | JInt int
  | JInt64 int
  | JFloat float64
  | JString string
  | JArray "json list"
  | JObject "(string, json) fmap"

type_synonym jmap = "(string, json) fmap"

text \<open>\<^verbatim>\<open>m[k]\<close> on a map that may be nil: reading a nil map yields the zero value.\<close>

definition mapIndex :: "jmap option \<Rightarrow> string \<Rightarrow> json option" where
  "mapIndex data k = (case data of None \<Rightarrow> None | Some m \<Rightarrow> fmlookup m k)"

text \<open>The value of \<^verbatim>\<open>m[k]\<close> itself: the nil interface when the key is absent.\<close>

fun anyValue :: "json option \<Rightarrow> json" where
  "anyValue None = JNil"
| "anyValue (Some v) = v"

text \<open>
  The type assertions \<^verbatim>\<open>v, ok := m[k].(T)\<close>. The argument is the result of the
  lookup: an absent key gives the nil interface, on which every assertion fails.
\<close>

fun asString :: "json option \<Rightarrow> string option" where
  "asString (Some (JString s)) = Some s"
| "asString _ = None"

fun asBool :: "json option \<Rightarrow> bool option" where
  "asBool (Some (JBool b)) = Some b"
| "asBool _ = None"

fun asFloat64 :: "json option \<Rightarrow> float64 option" where
  "asFloat64 (Some (JFloat f)) = Some f"
| "asFloat64 _ = None"

fun asArray :: "json option \<Rightarrow> json list option" where
  "asArray (Some (JArray xs)) = Some xs"
| "asArray _ = None"

fun asMap :: "json option \<Rightarrow> jmap option" where
  "asMap (Some (JObject m)) = Some m"
| "asMap _ = None"

subsection \<open>Conversion of a float64 to int\<close>

definition minInt :: int where
  "minInt = - (2 ^ 63)"

definition maxInt :: int where
  "maxInt = 2 ^ 63 - 1"

text \<open>Truncation toward zero, the value of \<^verbatim>\<open>int(v)\<close> when it fits.\<close>

definition truncReal :: "real \<Rightarrow> int" where
  "truncReal x = (if 0 \<le> x then \<lfloor>x\<rfloor> else \<lceil>x\<rceil>)"

definition fitsInt :: "float64 \<Rightarrow> bool" where
  "fitsInt v = (case v of F64 x \<Rightarrow> minInt \<le> truncReal x \<and> truncReal x \<le> maxInt | _ \<Rightarrow> False)"

text \<open>
  The language leaves \<^verbatim>\<open>int(v)\<close> implementation-dependent when the value does not
  fit (NaN and the infinities included): \<open>oor\<close> is what the platform yields there.
\<close>

definition float64ToInt :: "(float64 \<Rightarrow> int) \<Rightarrow> float64 \<Rightarrow> int" where
  "float64ToInt oor v =
     (case v of
        F64 x \<Rightarrow> if fitsInt v then truncReal x else oor v
      | _ \<Rightarrow> oor v)"

section \<open>Message model (\<^verbatim>\<open>internal/types\<close>)\<close>

datatype content_block =
    TextBlock string
  | ToolUseBlock string string jmap
  | ToolResultBlock string json "bool option"

text \<open>
  \<open>ToolUseBlock id name input\<close>; \<open>ToolResultBlock toolUseID content isError\<close>, where
  \<open>content\<close> is the \<^verbatim>\<open>any\<close> read from the block (nil when the key is absent) and
  \<open>isError\<close> the \<^verbatim>\<open>*bool\<close>.
\<close>

record ResultMessage =
  Subtype :: string
  DurationMs :: int
  DurationAPIMs :: int
  IsError :: bool
  NumTurns :: int
  SessionID :: string
  TotalCostUSD :: "float64 option"
  Usage :: "jmap option"
  Result :: "string option"

datatype message =
    UserMessage string
  | AssistantMessage "content_block list"
  | SystemMessage string "jmap option"
  | ResultMsg ResultMessage

definition NewResultMessage ::
  "string \<Rightarrow> int \<Rightarrow> int \<Rightarrow> int \<Rightarrow> bool \<Rightarrow> string \<Rightarrow> ResultMessage" where
  "NewResultMessage subtype durationMs durationAPIMs numTurns isError sessionID =
     \<lparr> Subtype = subtype, DurationMs = durationMs, DurationAPIMs = durationAPIMs,
       IsError = isError, NumTurns = numTurns, SessionID = sessionID,
       TotalCostUSD = None, Usage = None, Result = None \<rparr>"

section \<open>Errors (\<^verbatim>\<open>internal/errors\<close>)\<close>

text \<open>
  Each error keeps its message, its own fields and the text of the wrapped cause
  (\<open>None\<close> for a nil cause). \<open>CLINotFoundError path cause\<close> builds its message from
  the path.
\<close>

datatype error =
    CLIConnectionError string "string option"
  | CLINotFoundError string "string option"
  | ProcessError string int string "string option"
  | MessageParseError string "jmap option"

fun errorMessage :: "error \<Rightarrow> string" where
  "errorMessage (CLIConnectionError m c) = m"
| "errorMessage (CLINotFoundError p c) = ''Claude Code CLI not found at path: '' @ p"
| "errorMessage (ProcessError m n s c) = m"
| "errorMessage (MessageParseError m d) = m"

fun errorCause :: "error \<Rightarrow> string option" where
  "errorCause (CLIConnectionError m c) = c"
| "errorCause (CLINotFoundError p c) = c"
| "errorCause (ProcessError m n s c) = c"
| "errorCause (MessageParseError m d) = None"

text \<open>\<^verbatim>\<open>ClaudeSDKError.Error\<close>, promoted to every error type.\<close>

definition Error :: "error \<Rightarrow> string" where
  "Error e = (case errorCause e of
                Some c \<Rightarrow> errorMessage e @ '': '' @ c
              | None \<Rightarrow> errorMessage e)"

section \<open>Protocol parser (\<^verbatim>\<open>internal/parser\<close>)\<close>

subsection \<open>User messages\<close>

text \<open>
  The loop of \<^verbatim>\<open>parseUserMessage\<close> over the content array: it returns at the first
  element that is a map of type \<^verbatim>\<open>tool_result\<close> with a string content.
\<close>

fun firstToolResult :: "json list \<Rightarrow> string option" where
  "firstToolResult [] = None"
| "firstToolResult (blockData # rest) =
     (case asMap (Some blockData) of
        Some blockMap \<Rightarrow>
          (case asString (fmlookup blockMap ''type'') of
             Some blockType \<Rightarrow>
               if blockType = ''tool_result'' then
                 (case asString (fmlookup blockMap ''content'') of
                    Some toolContent \<Rightarrow> Some toolContent
                  | None \<Rightarrow> firstToolResult rest)
               else firstToolResult rest
           | None \<Rightarrow> firstToolResult rest)
      | None \<Rightarrow> firstToolResult rest)"

definition userDirect :: "jmap option \<Rightarrow> error + message" where
  "userDirect data =
     (case asString (mapIndex data ''content'') of
        Some content \<Rightarrow> Inr (UserMessage content)
      | None \<Rightarrow>
          Inl (MessageParseError ''Missing required field 'content' in user message'' data))"

definition parseUserMessage :: "jmap option \<Rightarrow> error + message" where
  "parseUserMessage data =
     (case asMap (mapIndex data ''message'') of
        Some message \<Rightarrow>
          (case asString (fmlookup message ''content'') of
             Some content \<Rightarrow> Inr (UserMessage content)
           | None \<Rightarrow>
               (case asArray (fmlookup message ''content'') of
                  Some contentArray \<Rightarrow>
                    (case firstToolResult contentArray of
                       Some toolContent \<Rightarrow> Inr (UserMessage toolContent)
                     | None \<Rightarrow> Inr (UserMessage ''[Tool result message]''))
                | None \<Rightarrow> userDirect data))
      | None \<Rightarrow> userDirect data)"

subsection \<open>Assistant messages\<close>

definition parseToolResult :: "jmap \<Rightarrow> error + content_block" where
  "parseToolResult blockData =
     (case asString (fmlookup blockData ''tool_use_id'') of
        None \<Rightarrow>
          Inl (MessageParseError ''Tool result block missing 'tool_use_id' field''
                 (Some blockData))
      | Some toolUseID \<Rightarrow>
          Inr (ToolResultBlock toolUseID (anyValue (fmlookup blockData ''content''))
                 (case fmlookup blockData ''is_error'' of
                    Some isErrorVal \<Rightarrow> asBool (Some isErrorVal)
                  | None \<Rightarrow> None)))"

definition parseToolUse :: "jmap \<Rightarrow> error + content_block" where
  "parseToolUse blockData =
     (case asString (fmlookup blockData ''id'') of
        None \<Rightarrow>
          Inl (MessageParseError ''Tool use block missing 'id' field'' (Some blockData))
      | Some ident \<Rightarrow>
          (case asString (fmlookup blockData ''name'') of
             None \<Rightarrow>
               Inl (MessageParseError ''Tool use block missing 'name' field''
                      (Some blockData))
           | Some name \<Rightarrow>
               (case asMap (fmlookup blockData ''input'') of
                  None \<Rightarrow>
                    Inl (MessageParseError ''Tool use block missing 'input' field''
                           (Some blockData))
                | Some input \<Rightarrow> Inr (ToolUseBlock ident name input))))"

definition parseContentBlock :: "jmap \<Rightarrow> error + content_block" where
  "parseContentBlock blockData =
     (case asString (fmlookup blockData ''type'') of
        None \<Rightarrow>
          Inl (MessageParseError ''Content block missing 'type' field'' (Some blockData))
      | Some blockType \<Rightarrow>
          if blockType = ''text'' then
            (case asString (fmlookup blockData ''text'') of
               None \<Rightarrow>
                 Inl (MessageParseError ''Text block missing 'text' field''
                        (Some blockData))
             | Some t \<Rightarrow> Inr (TextBlock t))
          else if blockType = ''tool_use'' then parseToolUse blockData
          else if blockType = ''tool_result'' then parseToolResult blockData
          else
            Inl (MessageParseError (''Unknown content block type: '' @ blockType)
                   (Some blockData)))"

text \<open>
  The loop of \<^verbatim>\<open>parseAssistantMessage\<close>: \<open>contentBlocks\<close> is the slice built so far;
  the first element that is not a map, or that \<^verbatim>\<open>parseContentBlock\<close> rejects, ends
  the function with that error.
\<close>

fun parseBlocks ::
  "jmap option \<Rightarrow> json list \<Rightarrow> content_block list \<Rightarrow> error + content_block list" where
  "parseBlocks data [] contentBlocks = Inr contentBlocks"
| "parseBlocks data (blockData # rest) contentBlocks =
     (case asMap (Some blockData) of
        None \<Rightarrow> Inl (MessageParseError ''Invalid content block format'' data)
      | Some blockMap \<Rightarrow>
          (case parseContentBlock blockMap of
             Inl err \<Rightarrow> Inl err
           | Inr block \<Rightarrow> parseBlocks data rest (contentBlocks @ [block])))"

text \<open>
  The content array \<^verbatim>\<open>parseAssistantMessage\<close> selects: the nested one when
  \<^verbatim>\<open>message\<close> is a map whose \<^verbatim>\<open>content\<close> is an array, else the top-level one;
  \<open>None\<close> is the nil slice.
\<close>

definition assistantContent :: "jmap option \<Rightarrow> json list option" where
  "assistantContent data =
     (let contentData =
            (case asMap (mapIndex data ''message'') of
               Some message \<Rightarrow> asArray (fmlookup message ''content'')
             | None \<Rightarrow> None)
      in case contentData of
           None \<Rightarrow> asArray (mapIndex data ''content'')
         | Some c \<Rightarrow> Some c)"

definition parseAssistantMessage :: "jmap option \<Rightarrow> error + message" where
  "parseAssistantMessage data =
     (case assistantContent data of
        None \<Rightarrow>
          Inl (MessageParseError ''Missing required field 'content' in assistant message''
                 data)
      | Some contentData \<Rightarrow>
          (case parseBlocks data contentData [] of
             Inl err \<Rightarrow> Inl err
           | Inr contentBlocks \<Rightarrow> Inr (AssistantMessage contentBlocks)))"

subsection \<open>System messages\<close>

definition parseSystemMessage :: "jmap option \<Rightarrow> error + message" where
  "parseSystemMessage data =
     (case asString (mapIndex data ''subtype'') of
        None \<Rightarrow>
          Inl (MessageParseError ''Missing required field 'subtype' in system message''
                 data)
      | Some subtype \<Rightarrow> Inr (SystemMessage subtype data))"

subsection \<open>Result messages\<close>

definition getIntField :: "(float64 \<Rightarrow> int) \<Rightarrow> jmap option \<Rightarrow> string \<Rightarrow> int option" where
  "getIntField oor data field =
     (case mapIndex data field of
        None \<Rightarrow> None
      | Some val \<Rightarrow>
          (case val of
             JInt v \<Rightarrow> Some v
           | JInt64 v \<Rightarrow> Some v
           | JFloat v \<Rightarrow> Some (float64ToInt oor v)
           | _ \<Rightarrow> None))"

text \<open>The optional fields, set on the message after it is built.\<close>

definition resultOptionals :: "jmap option \<Rightarrow> ResultMessage \<Rightarrow> ResultMessage" where
  "resultOptionals data message =
     (let message1 =
            (case mapIndex data ''total_cost_usd'' of
               Some totalCostUSD \<Rightarrow>
                 (case asFloat64 (Some totalCostUSD) of
                    Some cost \<Rightarrow> message\<lparr>TotalCostUSD := Some cost\<rparr>
                  | None \<Rightarrow> message)
             | None \<Rightarrow> message);
          message2 =
            (case mapIndex data ''usage'' of
               Some usage \<Rightarrow>
                 (case asMap (Some usage) of
                    Some usageMap \<Rightarrow> message1\<lparr>Usage := Some usageMap\<rparr>
                  | None \<Rightarrow> message1)
             | None \<Rightarrow> message1)
      in case mapIndex data ''result'' of
           Some result \<Rightarrow>
             (case asString (Some result) of
                Some resultStr \<Rightarrow> message2\<lparr>Result := Some resultStr\<rparr>
              | None \<Rightarrow> message2)
         | None \<Rightarrow> message2)"

definition parseResultMessage :: "(float64 \<Rightarrow> int) \<Rightarrow> jmap option \<Rightarrow> error + ResultMessage" where
  "parseResultMessage oor data =
     (case asString (mapIndex data ''subtype'') of
        None \<Rightarrow> Inl (MessageParseError ''Missing required field 'subtype' in result message'' data)
      | Some subtype \<Rightarrow>
     (case getIntField oor data ''duration_ms'' of
        None \<Rightarrow> Inl (MessageParseError ''Missing required field 'duration_ms' in result message'' data)
      | Some durationMs \<Rightarrow>
     (case getIntField oor data ''duration_api_ms'' of
        None \<Rightarrow> Inl (MessageParseError ''Missing required field 'duration_api_ms' in result message'' data)
      | Some durationAPIMs \<Rightarrow>
     (case asBool (mapIndex data ''is_error'') of
        None \<Rightarrow> Inl (MessageParseError ''Missing required field 'is_error' in result message'' data)
      | Some isError \<Rightarrow>
     (case getIntField oor data ''num_turns'' of
        None \<Rightarrow> Inl (MessageParseError ''Missing required field 'num_turns' in result message'' data)
      | Some numTurns \<Rightarrow>
     (case asString (mapIndex data ''session_id'') of
        None \<Rightarrow> Inl (MessageParseError ''Missing required field 'session_id' in result message'' data)
      | Some sessionID \<Rightarrow>
          Inr (resultOptionals data
                 (NewResultMessage subtype durationMs durationAPIMs numTurns isError
                    sessionID))))))))"

subsection \<open>Dispatch\<close>

definition ParseMessage :: "(float64 \<Rightarrow> int) \<Rightarrow> jmap option \<Rightarrow> error + message" where
  "ParseMessage oor data =
     (if data = None then
        Inl (MessageParseError ''Invalid message data type (expected map, got nil)'' data)
      else
        (case asString (mapIndex data ''type'') of
           None \<Rightarrow> Inl (MessageParseError ''Message missing 'type' field'' data)
         | Some messageType \<Rightarrow>
             if messageType = ''user'' then parseUserMessage data
             else if messageType = ''assistant'' then parseAssistantMessage data
             else if messageType = ''system'' then parseSystemMessage data
             else if messageType = ''result'' then
               (case parseResultMessage oor data of
                  Inl err \<Rightarrow> Inl err
                | Inr m \<Rightarrow> Inr (ResultMsg m))
             else
               Inl (MessageParseError (''Unknown message type: '' @ messageType) data)))"

section \<open>Query configuration (\<^verbatim>\<open>internal/types\<close>)\<close>

record McpServerConfig =
  Type :: string
  Command :: string
  Args :: "string list"
  Env :: "(string, string) fmap"
  URL :: string
  Headers :: "(string, string) fmap"

text \<open>\<^verbatim>\<open>PermissionMode\<close> is a named string type: any string can stand in it.\<close>

record QueryOptions =
  AllowedTools :: "string list"
  MaxThinkingTokens :: int
  SystemPrompt :: string
  AppendSystemPrompt :: string
  McpTools :: "string list"
  McpServers :: "(string, McpServerConfig) fmap"
  PermissionMode :: string
  ContinueConversation :: bool
  Resume :: string
  MaxTurns :: int
  DisallowedTools :: "string list"
  Model :: string
  PermissionPromptToolName :: string
  CWD :: string

text \<open>
  \<^verbatim>\<open>ClientOptions\<close> has a field \<^verbatim>\<open>CWD\<close> as well; it is \<open>ClientCWD\<close> here, and the
  private fields of \<^verbatim>\<open>Client\<close> carry a prefix, since field names are global.
\<close>

record ClientOptions =
  CLIPath :: string
  ClientCWD :: string

record Client =
  clientCliPath :: string
  clientCwd :: string

section \<open>Library functions the transport calls\<close>

text \<open>
  The transport calls into Go's standard library. What these functions compute is not
  part of the repository, so the model takes them as parameters:
  \<^item> \<open>jsonUnmarshal\<close>: \<^verbatim>\<open>json.Unmarshal\<close> of a line into a \<^verbatim>\<open>map[string]any\<close>;
    the JSON text \<^verbatim>\<open>null\<close> decodes without error to the nil map;
  \<^item> \<open>jsonMarshal\<close>: \<^verbatim>\<open>json.Marshal\<close> of the value \<^verbatim>\<open>buildCommand\<close> builds for
    \<^verbatim>\<open>--mcp-config\<close> (the source drops the error: a failed encoding is the empty
    string);
  \<^item> \<open>stringsTrimSpace\<close>: \<^verbatim>\<open>strings.TrimSpace\<close>;
  \<^item> \<open>filepathBase\<close>: \<^verbatim>\<open>filepath.Base\<close>;
  \<^item> \<open>floatOutOfRange\<close>: the platform's \<^verbatim>\<open>int(v)\<close> for a float64 that does not fit.
\<close>

datatype decode_result = DecodeError | Decoded "jmap option"

type_synonym mcp_config = "(string, (string, McpServerConfig) fmap) fmap"

record golib =
  jsonUnmarshal :: "string \<Rightarrow> decode_result"
  jsonMarshal :: "mcp_config \<Rightarrow> string"
  stringsTrimSpace :: "string \<Rightarrow> string"
  filepathBase :: "string \<Rightarrow> string"
  floatOutOfRange :: "float64 \<Rightarrow> int"

text \<open>\<^verbatim>\<open>strings.Join\<close>.\<close>

fun Join :: "string list \<Rightarrow> string \<Rightarrow> string" where
  "Join [] sep = []"
| "Join [x] sep = x"
| "Join (x # y # ys) sep = x @ sep @ Join (y # ys) sep"

text \<open>\<^verbatim>\<open>fmt.Sprintf("%d", n)\<close>: the decimal digits, with a minus sign below zero.\<close>

fun digitsOf :: "nat \<Rightarrow> string" where
  "digitsOf n =
     (if n < 10 then [''0123456789'' ! n]
      else digitsOf (n div 10) @ [''0123456789'' ! (n mod 10)])"

declare digitsOf.simps [simp del]

definition formatInt :: "int \<Rightarrow> string" where
  "formatInt n = (if n < 0 then CHR ''-'' # digitsOf (nat (- n)) else digitsOf (nat n))"

section \<open>Process transport (\<^verbatim>\<open>internal/transport\<close>)\<close>

definition maxBufferSize :: nat where
  "maxBufferSize = 1024 * 1024"

definition maxStderrSize :: nat where
  "maxStderrSize = 10 * 1024 * 1024"

subsection \<open>Argument construction\<close>

text \<open>
  One conditional \<^verbatim>\<open>append\<close> of \<^verbatim>\<open>buildCommand\<close>:
  \<^verbatim>\<open>if cond { args = append(args, extra...) }\<close>.
\<close>

definition appendIf :: "bool \<Rightarrow> string list \<Rightarrow> string list \<Rightarrow> string list" where
  "appendIf cond args extra = (if cond then args @ extra else args)"

text \<open>
  \<^verbatim>\<open>buildCommand\<close>: \<open>args\<close> goes through the conditional appends in the order of the
  source. \<open>options\<close> is a pointer: \<open>None\<close> is nil.
\<close>

definition buildCommand :: "golib \<Rightarrow> QueryOptions option \<Rightarrow> string \<Rightarrow> string list" where
  "buildCommand L options prompt =
     (let args0 = [''--output-format'', ''stream-json'', ''--verbose''];
          args12 =
            (case options of
               None \<Rightarrow> args0
             | Some opts \<Rightarrow>
                 (let args1 = appendIf (SystemPrompt opts \<noteq> []) args0
                                [''--system-prompt'', SystemPrompt opts];
                      args2 = appendIf (AppendSystemPrompt opts \<noteq> []) args1
                                [''--append-system-prompt'', AppendSystemPrompt opts];
                      args3 = appendIf (length (AllowedTools opts) > 0) args2
                                [''--allowedTools'', Join (AllowedTools opts) '',''];
                      args4 = appendIf (MaxTurns opts > 0) args3
                                [''--max-turns'', formatInt (MaxTurns opts)];
                      args5 = appendIf (length (DisallowedTools opts) > 0) args4
                                [''--disallowedTools'', Join (DisallowedTools opts) '',''];
                      args6 = appendIf (Model opts \<noteq> []) args5
                                [''--model'', Model opts];
                      args7 = appendIf (PermissionPromptToolName opts \<noteq> []) args6
                                [''--permission-prompt-tool'', PermissionPromptToolName opts];
                      args8 = appendIf (PermissionMode opts \<noteq> []) args7
                                [''--permission-mode'', PermissionMode opts];
                      args9 = appendIf (ContinueConversation opts) args8
                                [''--continue''];
                      args10 = appendIf (Resume opts \<noteq> []) args9
                                 [''--resume'', Resume opts];
                      args11 = appendIf (fmdom (McpServers opts) \<noteq> {||}) args10
                                 [''--mcp-config'',
                                  jsonMarshal L
                                    (fmupd ''mcpServers'' (McpServers opts) fmempty)]
                  in args11))
      in args12 @ [''--print'', prompt])"

subsection \<open>Connect\<close>

text \<open>
  \<^verbatim>\<open>exec.Cmd\<close>, as far as \<^verbatim>\<open>Connect\<close> fills it: the program, the argument vector
  (the program first), the working directory, the environment, and whether the process
  has been started (\<^verbatim>\<open>Process != nil\<close>).
\<close>

record Cmd =
  cmdPath :: string
  cmdArgs :: "string list"
  cmdDir :: string
  cmdEnv :: "string list"
  cmdProcess :: bool

text \<open>
  The transport. A pipe field is \<open>True\<close> when it holds a pipe (is not nil).
\<close>

record SubprocessTransport =
  cliPath :: string
  cwd :: string
  cmd :: "Cmd option"
  stdin :: bool
  stdout :: bool
  stderr :: bool

definition NewSubprocessTransport :: "string \<Rightarrow> string \<Rightarrow> SubprocessTransport" where
  "NewSubprocessTransport path dir =
     \<lparr> cliPath = path, cwd = dir, cmd = None, stdin = False, stdout = False, stderr = False \<rparr>"

text \<open>
  The machine \<^verbatim>\<open>Connect\<close> runs on: what \<^verbatim>\<open>cli.FindCLI\<close> returns, the error of
  \<^verbatim>\<open>os.Stat\<close> on a path (\<open>None\<close> when it succeeds), \<^verbatim>\<open>os.Environ()\<close>, and the errors
  of the three pipe calls and of \<^verbatim>\<open>cmd.Start\<close>.
\<close>

record host =
  FindCLI :: "error + string"
  osStat :: "string \<Rightarrow> string option"
  osEnviron :: "string list"
  StdinPipe :: "string option"
  StdoutPipe :: "string option"
  StderrPipe :: "string option"
  Start :: "Cmd \<Rightarrow> string option"

text \<open>
  \<^verbatim>\<open>Connect\<close> returns its error (\<open>None\<close> for nil) and the transport as the call leaves
  it. The stages follow the source: resolve the executable, build the arguments and
  the command, check the working directory, set the environment, create the three
  pipes, start the process, close stdin.
\<close>

definition Connect ::
  "host \<Rightarrow> golib \<Rightarrow> SubprocessTransport \<Rightarrow> QueryOptions option \<Rightarrow> string
     \<Rightarrow> error option \<times> SubprocessTransport" where
  "Connect H L t options prompt =
     (case (if cliPath t = [] then FindCLI H else Inr (cliPath t)) of
        Inl err \<Rightarrow> (Some err, t\<lparr>cliPath := []\<rparr>)
      | Inr path \<Rightarrow>
          (let t1 = t\<lparr>cliPath := path\<rparr>;
               args = buildCommand L options prompt;
               cmd0 = \<lparr> cmdPath = path, cmdArgs = path # args, cmdDir = [], cmdEnv = [],
                        cmdProcess = False \<rparr>;
               t2 = t1\<lparr>cmd := Some cmd0\<rparr>
           in case (if cwd t2 \<noteq> [] then osStat H (cwd t2) else None) of
                Some e \<Rightarrow>
                  (Some (CLIConnectionError
                           (''Working directory does not exist: '' @ cwd t2) (Some e)), t2)
              | None \<Rightarrow>
                  (let cmd1 = cmd0\<lparr>cmdDir := cwd t2\<rparr>;
                       cmd2 = cmd1\<lparr>cmdEnv := osEnviron H @
                                [''CLAUDE_CODE_ENTRYPOINT=sdk-go'', ''FORCE_COLOR=0'',
                                 ''NODE_ENV=production'']\<rparr>;
                       t3 = t2\<lparr>cmd := Some cmd2\<rparr>
                   in case StdinPipe H of
                        Some e \<Rightarrow>
                          (Some (CLIConnectionError ''failed to create stdin pipe'' (Some e)),
                           t3\<lparr>stdin := False\<rparr>)
                      | None \<Rightarrow>
                   (let t4 = t3\<lparr>stdin := True\<rparr>
                    in case StdoutPipe H of
                        Some e \<Rightarrow>
                          (Some (CLIConnectionError ''failed to create stdout pipe'' (Some e)),
                           t4\<lparr>stdout := False\<rparr>)
                      | None \<Rightarrow>
                   (let t5 = t4\<lparr>stdout := True\<rparr>
                    in case StderrPipe H of
                        Some e \<Rightarrow>
                          (Some (CLIConnectionError ''failed to create stderr pipe'' (Some e)),
                           t5\<lparr>stderr := False\<rparr>)
                      | None \<Rightarrow>
                   (let t6 = t5\<lparr>stderr := True\<rparr>
                    in case Start H cmd2 of
                        Some e \<Rightarrow>
                          (if filepathBase L (cliPath t6) = ''claude''
                           then (Some (CLINotFoundError (cliPath t6) (Some e)), t6)
                           else (Some (ProcessError ''failed to start CLI process'' 0 []
                                         (Some e)), t6))
                      | None \<Rightarrow>
                          (None, t6\<lparr>cmd := Some (cmd2\<lparr>cmdProcess := True\<rparr>)\<rparr>)))))))"

subsection \<open>The client's use of the transport (\<^verbatim>\<open>client.go\<close>)\<close>

definition NewClient :: "ClientOptions option \<Rightarrow> Client" where
  "NewClient options =
     (let client0 = \<lparr> clientCliPath = [], clientCwd = [] \<rparr>
      in case options of
           None \<Rightarrow> client0
         | Some opts \<Rightarrow>
             (let client1 = (if CLIPath opts \<noteq> []
                             then client0\<lparr>clientCliPath := CLIPath opts\<rparr> else client0)
              in if ClientCWD opts \<noteq> []
                 then client1\<lparr>clientCwd := ClientCWD opts\<rparr> else client1))"

text \<open>
  The start of \<^verbatim>\<open>Client.Query\<close>: a fresh transport from the client's two fields,
  then \<^verbatim>\<open>Connect\<close> with the options unchanged (the pointer conversion keeps the
  value).
\<close>

definition QueryConnect ::
  "host \<Rightarrow> golib \<Rightarrow> Client \<Rightarrow> string \<Rightarrow> QueryOptions option
     \<Rightarrow> error option \<times> SubprocessTransport" where
  "QueryConnect H L c prompt options =
     Connect H L (NewSubprocessTransport (clientCliPath c) (clientCwd c)) options prompt"

subsection \<open>The context and the message channel\<close>

text \<open>
  The producer goroutine of \<^verbatim>\<open>ReceiveMessages\<close> looks at the context at each
  \<^verbatim>\<open>select\<close>. Its polls are numbered; \<open>cancelled k\<close> says that the \<open>k\<close>-th one takes
  the \<^verbatim>\<open>ctx.Done()\<close> branch. (A \<^verbatim>\<open>select\<close> with a ready send and a cancelled context
  may take either branch, so the function need not be monotone.) A send that is not
  cancelled appends to the channel; the consumer is taken to receive, so the bound of
  10 never blocks for ever.
\<close>

type_synonym ctx = "nat \<Rightarrow> bool"

record chan =
  tick :: nat
  sent :: "message list"

definition step :: "chan \<Rightarrow> chan" where
  "step c = c\<lparr>tick := Suc (tick c)\<rparr>"

text \<open>\<^verbatim>\<open>select { case messageCh <- m: case <-ctx.Done(): }\<close>; \<open>True\<close> when sent.\<close>

definition trySend :: "ctx \<Rightarrow> message \<Rightarrow> chan \<Rightarrow> bool \<times> chan" where
  "trySend cancelled m c =
     (if cancelled (tick c) then (False, step c)
      else (True, (step c)\<lparr>sent := sent c @ [m]\<rparr>))"

subsection \<open>Reading stdout\<close>

text \<open>
  \<^verbatim>\<open>bufio.NewScanner(t.stdout)\<close> with the default split function and the default
  buffer: the source never calls \<^verbatim>\<open>scanner.Buffer\<close>, so a token and its newline have
  to fit \<^verbatim>\<open>bufio.MaxScanTokenSize = 64 * 1024\<close> bytes. \<open>scanLines\<close> takes the lines of
  stdout (the bytes between newlines) and the read error that ends them (\<open>None\<close> for
  EOF); it yields the tokens \<^verbatim>\<open>Scan\<close> delivers and the final \<^verbatim>\<open>scanner.Err()\<close>. A line
  that does not fit ends the scan with \<^verbatim>\<open>bufio.ErrTooLong\<close>.
\<close>

definition maxScanTokenSize :: nat where
  "maxScanTokenSize = 64 * 1024"

definition dropCR :: "string \<Rightarrow> string" where
  "dropCR s = (if s \<noteq> [] \<and> last s = CHR 0x0D then butlast s else s)"

fun scanLines :: "string list \<Rightarrow> string option \<Rightarrow> string list \<times> string option" where
  "scanLines [] readErr = ([], readErr)"
| "scanLines (l # ls) readErr =
     (if length l \<ge> maxScanTokenSize then ([], Some ''bufio.Scanner: token too long'')
      else (case scanLines ls readErr of (tokens, err) \<Rightarrow> (dropCR l # tokens, err)))"

text \<open>
  The \<^verbatim>\<open>for scanner.Scan()\<close> loop over the tokens. The result is \<open>False\<close> when the
  goroutine returned on \<^verbatim>\<open>ctx.Done()\<close>, \<open>True\<close> when the loop ran out of tokens.
\<close>

fun receiveLoop :: "golib \<Rightarrow> ctx \<Rightarrow> string list \<Rightarrow> chan \<Rightarrow> bool \<times> chan" where
  "receiveLoop L cancelled [] c = (True, c)"
| "receiveLoop L cancelled (scanned # rest) c =
     (if cancelled (tick c) then (False, step c)
      else
        (let c1 = step c; line = stringsTrimSpace L scanned in
         if line = [] then receiveLoop L cancelled rest c1
         else if length line > maxBufferSize then
           (case trySend cancelled
                   (UserMessage (''JSON message exceeded maximum buffer size of '' @
                                 formatInt (int maxBufferSize) @ '' bytes'')) c1 of
              (ok, c2) \<Rightarrow> if ok then receiveLoop L cancelled rest c2 else (False, c2))
         else
           (case jsonUnmarshal L line of
              DecodeError \<Rightarrow> receiveLoop L cancelled rest c1
            | Decoded data \<Rightarrow>
                if asString (mapIndex data ''type'') = Some ''control_response''
                then receiveLoop L cancelled rest c1
                else
                  (case ParseMessage (floatOutOfRange L) data of
                     Inl err \<Rightarrow>
                       (case trySend cancelled (UserMessage (''Parse error: '' @ Error err))
                               c1 of
                          (ok, c2) \<Rightarrow>
                            if ok then receiveLoop L cancelled rest c2 else (False, c2))
                   | Inr message \<Rightarrow>
                       (case trySend cancelled message c1 of
                          (ok, c2) \<Rightarrow>
                            if ok then receiveLoop L cancelled rest c2 else (False, c2))))))"

subsection \<open>Process completion\<close>

text \<open>
  What the collecting \<^verbatim>\<open>select\<close> of \<^verbatim>\<open>handleProcessCompletion\<close> receives, in order: a
  line of stderr, or the 30 second timer. The end of the list is the closed channel.
\<close>

datatype stderr_event = StderrLine string | StderrTimeout

text \<open>
  \<open>collectStderr\<close> is the collecting loop; \<open>None\<close> when it returned on
  \<^verbatim>\<open>ctx.Done()\<close>, else the collected lines with which it reaches \<^verbatim>\<open>waitForProcess\<close>.
\<close>

fun collectStderr ::
  "ctx \<Rightarrow> stderr_event list \<Rightarrow> string list \<Rightarrow> nat \<Rightarrow> chan \<Rightarrow> string list option \<times> chan" where
  "collectStderr cancelled [] stderrLines stderrSize c =
     (if cancelled (tick c) then (None, step c) else (Some stderrLines, step c))"
| "collectStderr cancelled (ev # evs) stderrLines stderrSize c =
     (if cancelled (tick c) then (None, step c)
      else
        (case ev of
           StderrTimeout \<Rightarrow>
             (Some (stderrLines @ [''[stderr collection timed out after 30s]'']), step c)
         | StderrLine line \<Rightarrow>
             if stderrSize + length line > maxStderrSize then
               (Some (stderrLines @
                      [''[stderr truncated after '' @ formatInt (int stderrSize) @ '' bytes]'']),
                step c)
             else
               collectStderr cancelled evs (stderrLines @ [line]) (stderrSize + length line)
                 (step c)))"

text \<open>
  The result of \<^verbatim>\<open>cmd.Wait()\<close>: nil; an \<^verbatim>\<open>*exec.ExitError\<close>, with the
  \<^verbatim>\<open>ExitStatus()\<close> of its wait status when \<^verbatim>\<open>Sys()\<close> is one; or another error.
\<close>

datatype wait_result = WaitNil | WaitExitError "int option" | WaitOtherError

fun exitCodeOf :: "wait_result \<Rightarrow> int" where
  "exitCodeOf WaitNil = 0"
| "exitCodeOf (WaitExitError (Some status)) = status"
| "exitCodeOf (WaitExitError None) = 0"
| "exitCodeOf WaitOtherError = - 1"

text \<open>What the subprocess does in one run.\<close>

record process =
  stdoutLines :: "string list"
  stdoutError :: "string option"
  stderrEvents :: "stderr_event list"
  waitResult :: wait_result

definition handleProcessCompletion ::
  "ctx \<Rightarrow> SubprocessTransport \<Rightarrow> process \<Rightarrow> chan \<Rightarrow> chan" where
  "handleProcessCompletion cancelled t p c =
     (case (if stderr t then collectStderr cancelled (stderrEvents p) [] 0 c
            else (Some [], c)) of
        (None, c1) \<Rightarrow> c1
      | (Some stderrLines, c1) \<Rightarrow>
          (let exitCode = exitCodeOf (waitResult p);
               stderrOutput = Join stderrLines [CHR 0x0A]
           in if exitCode \<noteq> 0 then
                snd (trySend cancelled
                       (UserMessage (''Process failed with exit code '' @ formatInt exitCode @
                                     '': '' @ stderrOutput)) c1)
              else c1))"

subsection \<open>ReceiveMessages\<close>

text \<open>
  The goroutine of \<^verbatim>\<open>ReceiveMessages\<close>: the scan loop, the scanner's error, process
  completion. The deferred cleanup and the closing of the channel send nothing.
\<close>

definition receiveGoroutine ::
  "golib \<Rightarrow> ctx \<Rightarrow> SubprocessTransport \<Rightarrow> process \<Rightarrow> chan \<Rightarrow> chan" where
  "receiveGoroutine L cancelled t p c =
     (case scanLines (stdoutLines p) (stdoutError p) of
        (tokens, scanErr) \<Rightarrow>
          (case receiveLoop L cancelled tokens c of
             (False, c1) \<Rightarrow> c1
           | (True, c1) \<Rightarrow>
               (case scanErr of
                  Some err \<Rightarrow>
                    (case trySend cancelled (UserMessage (''Scanner error: '' @ err)) c1 of
                       (ok, c2) \<Rightarrow>
                         if ok then handleProcessCompletion cancelled t p c2 else c2)
                | None \<Rightarrow> handleProcessCompletion cancelled t p c1)))"

text \<open>
  \<^verbatim>\<open>ReceiveMessages\<close>: an error when the transport is not connected, else the
  messages the channel carries until it is closed, in order.
\<close>

definition ReceiveMessages ::
  "golib \<Rightarrow> ctx \<Rightarrow> SubprocessTransport \<Rightarrow> process \<Rightarrow> error + message list" where
  "ReceiveMessages L cancelled t p =
     (if cmd t = None then Inl (CLIConnectionError ''not connected'' None)
      else Inr (sent (receiveGoroutine L cancelled t p \<lparr> tick = 0, sent = [] \<rparr>)))"

section \<open>The parser's contract, as the specification words it\<close>

text \<open>
  The definitions of this section are not taken from the source: they say, in terms of
  the JSON object alone, what the specification expects of \<^verbatim>\<open>Parse\<close>. The theorems
  compare them with \<open>ParseMessage\<close>.
\<close>

subsection \<open>Shapes of a field\<close>

fun isString :: "json option \<Rightarrow> bool" where
  "isString (Some (JString s)) = True"
| "isString _ = False"

fun stringValue :: "json option \<Rightarrow> string" where
  "stringValue (Some (JString s)) = s"
| "stringValue _ = []"

fun isBoolean :: "json option \<Rightarrow> bool" where
  "isBoolean (Some (JBool b)) = True"
| "isBoolean _ = False"

fun boolValue :: "json option \<Rightarrow> bool" where
  "boolValue (Some (JBool b)) = b"
| "boolValue _ = False"

fun isArray :: "json option \<Rightarrow> bool" where
  "isArray (Some (JArray xs)) = True"
| "isArray _ = False"

fun isObject :: "json option \<Rightarrow> bool" where
  "isObject (Some (JObject m)) = True"
| "isObject _ = False"

fun objectValue :: "json option \<Rightarrow> jmap" where
  "objectValue (Some (JObject m)) = m"
| "objectValue _ = fmempty"

text \<open>Numeric: an integer or a float.\<close>

fun isNumeric :: "json option \<Rightarrow> bool" where
  "isNumeric (Some (JInt n)) = True"
| "isNumeric (Some (JInt64 n)) = True"
| "isNumeric (Some (JFloat f)) = True"
| "isNumeric _ = False"

text \<open>
  The integer a numeric field stands for: an integer as it is, a float truncated
  toward zero when the result fits an int (and what the platform yields when not).
\<close>

fun numericValue :: "(float64 \<Rightarrow> int) \<Rightarrow> json option \<Rightarrow> int" where
  "numericValue oor (Some (JInt n)) = n"
| "numericValue oor (Some (JInt64 n)) = n"
| "numericValue oor (Some (JFloat (F64 x))) =
     (if minInt \<le> truncReal x \<and> truncReal x \<le> maxInt then truncReal x else oor (F64 x))"
| "numericValue oor (Some (JFloat f)) = oor f"
| "numericValue oor _ = 0"

text \<open>A numeric field that is not negative (a float also within the range of int).\<close>

fun nonNegative :: "json option \<Rightarrow> bool" where
  "nonNegative (Some (JInt n)) = (0 \<le> n)"
| "nonNegative (Some (JInt64 n)) = (0 \<le> n)"
| "nonNegative (Some (JFloat (F64 x))) = (0 \<le> x \<and> truncReal x \<le> maxInt)"
| "nonNegative _ = False"

subsection \<open>Result messages\<close>

text \<open>The six required fields are present and of the right shape.\<close>

definition resultRequired :: "jmap \<Rightarrow> bool" where
  "resultRequired d \<longleftrightarrow>
     isString (fmlookup d ''subtype'') \<and>
     isNumeric (fmlookup d ''duration_ms'') \<and>
     isNumeric (fmlookup d ''duration_api_ms'') \<and>
     isBoolean (fmlookup d ''is_error'') \<and>
     isNumeric (fmlookup d ''num_turns'') \<and>
     isString (fmlookup d ''session_id'')"

subsection \<open>User messages\<close>

text \<open>The content nested under \<^verbatim>\<open>message\<close>, when \<^verbatim>\<open>message\<close> is an object.\<close>

definition nestedContent :: "jmap \<Rightarrow> json option" where
  "nestedContent d =
     (case fmlookup d ''message'' of
        Some (JObject m) \<Rightarrow> fmlookup m ''content''
      | _ \<Rightarrow> None)"

text \<open>The string content of an element that is a \<^verbatim>\<open>tool_result\<close> block.\<close>

fun toolResultText :: "json \<Rightarrow> string option" where
  "toolResultText (JObject m) =
     (if fmlookup m ''type'' = Some (JString ''tool_result'')
      then asString (fmlookup m ''content'') else None)"
| "toolResultText _ = None"

text \<open>
  Extraction from an array: the first string content that a \<^verbatim>\<open>tool_result\<close> block
  yields, and the placeholder when none does.
\<close>

definition extractToolResult :: "json list \<Rightarrow> string" where
  "extractToolResult arr =
     (case List.map_filter toolResultText arr of
        [] \<Rightarrow> ''[Tool result message]''
      | t # _ \<Rightarrow> t)"

text \<open>
  The three shapes in their order of precedence: nested string, nested array,
  top-level string. \<open>None\<close> when none applies.
\<close>

definition userText :: "jmap \<Rightarrow> string option" where
  "userText d =
     (case nestedContent d of
        Some (JString s) \<Rightarrow> Some s
      | Some (JArray arr) \<Rightarrow> Some (extractToolResult arr)
      | _ \<Rightarrow> asString (fmlookup d ''content''))"

subsection \<open>Assistant messages\<close>

text \<open>The content array: the nested one, else the top-level one.\<close>

definition assistantArray :: "jmap \<Rightarrow> json list option" where
  "assistantArray d =
     (case nestedContent d of
        Some (JArray arr) \<Rightarrow> Some arr
      | _ \<Rightarrow> asArray (fmlookup d ''content''))"

text \<open>
  An element is a well-formed block when it is an object whose \<^verbatim>\<open>type\<close> is one of the
  three block types and whose required sub-fields are there.
\<close>

fun validBlock :: "json \<Rightarrow> bool" where
  "validBlock (JObject b) =
     (isString (fmlookup b ''type'') \<and>
      (let t = stringValue (fmlookup b ''type'') in
         if t = ''text'' then isString (fmlookup b ''text'')
         else if t = ''tool_use'' then
           isString (fmlookup b ''id'') \<and> isString (fmlookup b ''name'') \<and>
           isObject (fmlookup b ''input'')
         else if t = ''tool_result'' then isString (fmlookup b ''tool_use_id'')
         else False))"
| "validBlock _ = False"

text \<open>The block a well-formed element stands for.\<close>

fun blockOf :: "json \<Rightarrow> content_block" where
  "blockOf (JObject b) =
     (let t = stringValue (fmlookup b ''type'') in
        if t = ''text'' then TextBlock (stringValue (fmlookup b ''text''))
        else if t = ''tool_use'' then
          ToolUseBlock (stringValue (fmlookup b ''id'')) (stringValue (fmlookup b ''name''))
            (objectValue (fmlookup b ''input''))
        else
          ToolResultBlock (stringValue (fmlookup b ''tool_use_id''))
            (case fmlookup b ''content'' of None \<Rightarrow> JNil | Some v \<Rightarrow> v)
            (asBool (fmlookup b ''is_error'')))"
| "blockOf _ = TextBlock []"

section \<open>The transport's contract, as the specification words it\<close>

subsection \<open>The optional flags of the invocation\<close>

text \<open>
  Each optional part of the argument list is there when its field is non-empty, true
  or positive, and is the empty list when not.
\<close>

definition flagString :: "string \<Rightarrow> string \<Rightarrow> string list" where
  "flagString flag v = (if v \<noteq> [] then [flag, v] else [])"

definition flagList :: "string \<Rightarrow> string list \<Rightarrow> string list" where
  "flagList flag xs = (if xs \<noteq> [] then [flag, Join xs '',''] else [])"

definition flagPositive :: "string \<Rightarrow> int \<Rightarrow> string list" where
  "flagPositive flag n = (if n > 0 then [flag, formatInt n] else [])"

definition flagBool :: "string \<Rightarrow> bool \<Rightarrow> string list" where
  "flagBool flag b = (if b then [flag] else [])"

text \<open>
  The value of \<^verbatim>\<open>--mcp-config\<close> is the JSON encoding of the object with the one key
  \<^verbatim>\<open>mcpServers\<close>, bound to the configured servers.
\<close>

definition flagMcp :: "golib \<Rightarrow> string \<Rightarrow> (string, McpServerConfig) fmap \<Rightarrow> string list" where
  "flagMcp L flag servers =
     (if fmdom servers \<noteq> {||}
      then [flag, jsonMarshal L (fmupd ''mcpServers'' servers fmempty)] else [])"

subsection \<open>Connect\<close>

text \<open>The executable \<^verbatim>\<open>Connect\<close> resolves: the configured path, else the discovered one.\<close>

definition resolvedPath :: "host \<Rightarrow> SubprocessTransport \<Rightarrow> error + string" where
  "resolvedPath H t = (if cliPath t = [] then FindCLI H else Inr (cliPath t))"

text \<open>
  The error of the working directory check: that of \<^verbatim>\<open>os.Stat\<close> when a directory is
  configured, none when the check passes or no directory is configured.
\<close>

definition workingDirError :: "host \<Rightarrow> SubprocessTransport \<Rightarrow> string option" where
  "workingDirError H t = (if cwd t \<noteq> [] then osStat H (cwd t) else None)"

text \<open>The command as it stands when \<^verbatim>\<open>Connect\<close> starts the process.\<close>

definition commandAtStart ::
  "host \<Rightarrow> golib \<Rightarrow> SubprocessTransport \<Rightarrow> string \<Rightarrow> QueryOptions option \<Rightarrow> string \<Rightarrow> Cmd" where
  "commandAtStart H L t path options prompt =
     \<lparr> cmdPath = path, cmdArgs = path # buildCommand L options prompt, cmdDir = cwd t,
       cmdEnv = osEnviron H @
         [''CLAUDE_CODE_ENTRYPOINT=sdk-go'', ''FORCE_COLOR=0'', ''NODE_ENV=production''],
       cmdProcess = False \<rparr>"

definition processStarted :: "SubprocessTransport \<Rightarrow> bool" where
  "processStarted t = (case cmd t of None \<Rightarrow> False | Some c \<Rightarrow> cmdProcess c)"

subsection \<open>The message stream\<close>

text \<open>The context is never cancelled: no poll takes the \<^verbatim>\<open>ctx.Done()\<close> branch.\<close>

definition neverCancelled :: "ctx \<Rightarrow> bool" where
  "neverCancelled cancelled = (\<forall>k. \<not> cancelled k)"

text \<open>
  What one line of stdout contributes to the stream: nothing for a blank line, a line
  that is not JSON and a \<^verbatim>\<open>control_response\<close>; a diagnostic for a line over the size
  bound and for an object the parser rejects; else the parsed message.
\<close>

definition lineMessage :: "golib \<Rightarrow> string \<Rightarrow> message option" where
  "lineMessage L scanned =
     (let line = stringsTrimSpace L scanned in
      if line = [] then None
      else if length line > maxBufferSize then
        Some (UserMessage (''JSON message exceeded maximum buffer size of '' @
                           formatInt (int maxBufferSize) @ '' bytes''))
      else
        (case jsonUnmarshal L line of
           DecodeError \<Rightarrow> None
         | Decoded data \<Rightarrow>
             if asString (mapIndex data ''type'') = Some ''control_response'' then None
             else
               (case ParseMessage (floatOutOfRange L) data of
                  Inl err \<Rightarrow> Some (UserMessage (''Parse error: '' @ Error err))
                | Inr message \<Rightarrow> Some message)))"

text \<open>
  The messages that come from stdout: one per contributing token, in order, then the
  scanner's error if it has one.
\<close>

definition stdoutMessages :: "golib \<Rightarrow> process \<Rightarrow> message list" where
  "stdoutMessages L p =
     (case scanLines (stdoutLines p) (stdoutError p) of
        (tokens, scanErr) \<Rightarrow>
          List.map_filter (lineMessage L) tokens @
          (case scanErr of
             Some err \<Rightarrow> [UserMessage (''Scanner error: '' @ err)]
           | None \<Rightarrow> []))"

text \<open>
  The stderr text collected from a list of events: the lines up to the 10 MiB cap or
  the timeout, with the marker of whichever ends the collection.
\<close>

fun stderrCollected :: "stderr_event list \<Rightarrow> string list \<Rightarrow> nat \<Rightarrow> string list" where
  "stderrCollected [] stderrLines stderrSize = stderrLines"
| "stderrCollected (StderrTimeout # evs) stderrLines stderrSize =
     stderrLines @ [''[stderr collection timed out after 30s]'']"
| "stderrCollected (StderrLine line # evs) stderrLines stderrSize =
     (if stderrSize + length line > maxStderrSize
      then stderrLines @
           [''[stderr truncated after '' @ formatInt (int stderrSize) @ '' bytes]'']
      else stderrCollected evs (stderrLines @ [line]) (stderrSize + length line))"

definition stderrOutput :: "SubprocessTransport \<Rightarrow> process \<Rightarrow> string" where
  "stderrOutput t p =
     Join (if stderr t then stderrCollected (stderrEvents p) [] 0 else []) [CHR 0x0A]"

text \<open>The diagnostic of a failed process: one message for a non-zero exit code, else none.\<close>

definition exitDiagnostic :: "SubprocessTransport \<Rightarrow> process \<Rightarrow> message list" where
  "exitDiagnostic t p =
     (if exitCodeOf (waitResult p) \<noteq> 0
      then [UserMessage (''Process failed with exit code '' @
                         formatInt (exitCodeOf (waitResult p)) @ '': '' @ stderrOutput t p)]
      else [])"

section \<open>Example inputs\<close>

text \<open>
  The decoder stores every JSON number as a float64, so the numbers of a decoded
  object are floats.
\<close>

subsection \<open>Result objects\<close>

text \<open>
  \<^verbatim>\<open>{"type":"result","subtype":"success","duration_ms":1000,"duration_api_ms":800,
  "is_error":false,"num_turns":2,"session_id":"abc"}\<close>
\<close>

definition result_example :: jmap where
  "result_example = fmap_of_list
     [(''type'', JString ''result''), (''subtype'', JString ''success''),
      (''duration_ms'', JFloat (F64 1000)), (''duration_api_ms'', JFloat (F64 800)),
      (''is_error'', JBool False), (''num_turns'', JFloat (F64 2)),
      (''session_id'', JString ''abc'')]"

text \<open>
  A result object with a fractional float, a Go int and an int64 for its numbers, a
  cost, a usage of the wrong type, and a result text.
\<close>

definition result_mixed :: jmap where
  "result_mixed = fmap_of_list
     [(''type'', JString ''result''), (''subtype'', JString ''error_max_turns''),
      (''duration_ms'', JFloat (F64 (2001 / 2))), (''duration_api_ms'', JInt 800),
      (''is_error'', JBool True), (''num_turns'', JInt64 2),
      (''session_id'', JString ''abc''), (''total_cost_usd'', JFloat (F64 (1 / 4))),
      (''usage'', JString ''none''), (''result'', JString ''done'')]"

text \<open>The first object without its \<^verbatim>\<open>session_id\<close>.\<close>

definition result_incomplete :: jmap where
  "result_incomplete = fmap_of_list
     [(''type'', JString ''result''), (''subtype'', JString ''success''),
      (''duration_ms'', JFloat (F64 1000)), (''duration_api_ms'', JFloat (F64 800)),
      (''is_error'', JBool False), (''num_turns'', JFloat (F64 2))]"

text \<open>
  \<^verbatim>\<open>{"type":"result","subtype":"success","duration_ms":-5,"duration_api_ms":-3,
  "is_error":false,"num_turns":-2,"session_id":""}\<close>, and the message it parses to.
\<close>

definition result_negative :: jmap where
  "result_negative = fmap_of_list
     [(''type'', JString ''result''), (''subtype'', JString ''success''),
      (''duration_ms'', JFloat (F64 (- 5))), (''duration_api_ms'', JFloat (F64 (- 3))),
      (''is_error'', JBool False), (''num_turns'', JFloat (F64 (- 2))),
      (''session_id'', JString [])]"

definition result_negative_message :: ResultMessage where
  "result_negative_message =
     \<lparr> Subtype = ''success'', DurationMs = - 5, DurationAPIMs = - 3, IsError = False,
       NumTurns = - 2, SessionID = [], TotalCostUSD = None, Usage = None, Result = None \<rparr>"

subsection \<open>User objects\<close>

text \<open>
  A nested array whose first \<^verbatim>\<open>tool_result\<close> block has no string content and whose
  second has one; the object also has a top-level content.
\<close>

definition user_tool_result :: jmap where
  "user_tool_result = fmap_of_list
     [(''type'', JString ''user''),
      (''message'', JObject (fmap_of_list
         [(''content'', JArray
            [JObject (fmap_of_list [(''type'', JString ''text''), (''text'', JString ''t'')]),
             JObject (fmap_of_list [(''type'', JString ''tool_result''),
                                    (''content'', JArray [])]),
             JObject (fmap_of_list [(''type'', JString ''tool_result''),
                                    (''content'', JString ''42'')])])])),
      (''content'', JString ''top'')]"

text \<open>A user object with none of the three shapes.\<close>

definition user_empty :: jmap where
  "user_empty = fmap_of_list [(''type'', JString ''user''), (''content'', JFloat (F64 1))]"

subsection \<open>Assistant objects\<close>

text \<open>\<^verbatim>\<open>{"type":"assistant","message":{"content":[{"type":"text","text":"hi"}]}}\<close>\<close>

definition assistant_example :: jmap where
  "assistant_example = fmap_of_list
     [(''type'', JString ''assistant''),
      (''message'', JObject (fmap_of_list
         [(''content'', JArray
            [JObject (fmap_of_list [(''type'', JString ''text''),
                                    (''text'', JString ''hi'')])])]))]"

text \<open>A top-level content array with one block of each type.\<close>

definition assistant_three :: jmap where
  "assistant_three = fmap_of_list
     [(''type'', JString ''assistant''),
      (''content'', JArray
         [JObject (fmap_of_list [(''type'', JString ''text''), (''text'', JString ''a'')]),
          JObject (fmap_of_list [(''type'', JString ''tool_use''), (''id'', JString ''u1''),
                                 (''name'', JString ''Bash''),
                                 (''input'', JObject fmempty)]),
          JObject (fmap_of_list [(''type'', JString ''tool_result''),
                                 (''tool_use_id'', JString ''u1''),
                                 (''is_error'', JBool False)])])]"

text \<open>A content array whose second element has an unknown block type.\<close>

definition assistant_bad_block :: jmap where
  "assistant_bad_block = fmap_of_list
     [(''type'', JString ''assistant''),
      (''content'', JArray
         [JObject (fmap_of_list [(''type'', JString ''text''), (''text'', JString ''a'')]),
          JObject (fmap_of_list [(''type'', JString ''image'')])])]"

subsection \<open>A library instance for the examples\<close>

text \<open>
  The examples need the library parameters at concrete values. \<open>trimASCII\<close> is
  \<^verbatim>\<open>strings.TrimSpace\<close> on ASCII text, \<open>baseUnix\<close> is \<^verbatim>\<open>filepath.Base\<close> with the
  separator \<^verbatim>\<open>/\<close>, and \<open>exampleUnmarshal\<close> decodes the three JSON lines below and
  rejects every other line.
\<close>

definition asciiSpace :: "char \<Rightarrow> bool" where
  "asciiSpace ch = (ch \<in> set [CHR 0x09, CHR 0x0A, CHR 0x0B, CHR 0x0C, CHR 0x0D, CHR 0x20])"

definition trimASCII :: "string \<Rightarrow> string" where
  "trimASCII s = rev (dropWhile asciiSpace (rev (dropWhile asciiSpace s)))"

definition baseUnix :: "string \<Rightarrow> string" where
  "baseUnix path =
     (if path = [] then ''.''
      else
        (let stripped = rev (dropWhile (\<lambda>ch. ch = CHR ''/'') (rev path));
             element = rev (takeWhile (\<lambda>ch. ch \<noteq> CHR ''/'') (rev stripped))
         in if element = [] then ''/'' else element))"

definition line_not_json :: string where
  "line_not_json = ''Debugger attached.''"

definition line_control :: string where
  \<open>line_control = ''{"type":"control_response"}''\<close>

definition line_bogus :: string where
  \<open>line_bogus = ''{"type":"bogus"}''\<close>

definition line_user :: string where
  \<open>line_user = ''{"type":"user","content":"hi"}''\<close>

definition exampleUnmarshal :: "string \<Rightarrow> decode_result" where
  "exampleUnmarshal s =
     (if s = line_control then
        Decoded (Some (fmap_of_list [(''type'', JString ''control_response'')]))
      else if s = line_bogus then
        Decoded (Some (fmap_of_list [(''type'', JString ''bogus'')]))
      else if s = line_user then
        Decoded (Some (fmap_of_list [(''type'', JString ''user''),
                                     (''content'', JString ''hi'')]))
      else DecodeError)"

definition exampleLib :: golib where
  "exampleLib =
     \<lparr> jsonUnmarshal = exampleUnmarshal, jsonMarshal = (\<lambda>v. []),
       stringsTrimSpace = trimASCII, filepathBase = baseUnix,
       floatOutOfRange = (\<lambda>v. minInt) \<rparr>"

subsection \<open>Query options\<close>

definition options_example :: QueryOptions where
  "options_example =
     \<lparr> AllowedTools = [''Read'', ''Write'', ''Bash''], MaxThinkingTokens = 0,
       SystemPrompt = ''You are a helpful coding assistant'', AppendSystemPrompt = [],
       McpTools = [],
       McpServers = fmupd ''server1''
         \<lparr> Type = ''stdio'', Command = ''mcp-server'', Args = [''--port'', ''8080''],
           Env = fmempty, URL = [], Headers = fmempty \<rparr> fmempty,
       PermissionMode = ''acceptEdits'', ContinueConversation = True, Resume = [],
       MaxTurns = 5, DisallowedTools = [], Model = ''sonnet'',
       PermissionPromptToolName = [], CWD = [] \<rparr>"

subsection \<open>Hosts and transports\<close>

text \<open>
  A host on which the CLI is found at \<^verbatim>\<open>/usr/local/bin/claude\<close>, only \<^verbatim>\<open>/tmp\<close> exists,
  the pipes can be created and no process can be started.
\<close>

definition host_no_start :: host where
  "host_no_start =
     \<lparr> FindCLI = Inr ''/usr/local/bin/claude'',
       osStat = (\<lambda>path. if path = ''/tmp'' then None
                         else Some ''no such file or directory''),
       osEnviron = [''HOME=/root''],
       StdinPipe = None, StdoutPipe = None, StderrPipe = None,
       Start = (\<lambda>c. Some ''exec format error'') \<rparr>"

text \<open>The same host, on which every process starts.\<close>

definition host_ok :: host where
  "host_ok = host_no_start\<lparr>Start := (\<lambda>c. None)\<rparr>"

text \<open>A transport after a successful \<^verbatim>\<open>Connect\<close>, as far as receiving looks at it.\<close>

definition connected_transport :: SubprocessTransport where
  "connected_transport =
     \<lparr> cliPath = ''/usr/local/bin/claude'', cwd = [],
       cmd = Some \<lparr> cmdPath = ''/usr/local/bin/claude'',
                    cmdArgs = [''/usr/local/bin/claude''], cmdDir = [], cmdEnv = [],
                    cmdProcess = True \<rparr>,
       stdin = True, stdout = True, stderr = True \<rparr>"

subsection \<open>Runs of the subprocess\<close>

text \<open>A process that prints nothing, writes \<^verbatim>\<open>boom\<close> to stderr and exits with code 3.\<close>

definition process_boom :: process where
  "process_boom =
     \<lparr> stdoutLines = [], stdoutError = None, stderrEvents = [StderrLine ''boom''],
       waitResult = WaitExitError (Some 3) \<rparr>"

text \<open>A process that prints one user message and exits with code 0.\<close>

definition process_clean :: process where
  "process_clean =
     \<lparr> stdoutLines = [line_user], stdoutError = None, stderrEvents = [],
       waitResult = WaitNil \<rparr>"

text \<open>
  A process whose first line of stdout has 1024 * 1024 + 1 bytes and whose second line
  is a user message; it exits with code 0.
\<close>

definition oversized_line :: string where
  "oversized_line = replicate (1024 * 1024 + 1) (CHR ''x'')"

definition process_oversized :: process where
  "process_oversized =
     \<lparr> stdoutLines = [oversized_line, line_user], stdoutError = None, stderrEvents = [],
       waitResult = WaitNil \<rparr>"

section \<open>Properties of the protocol parser\<close>

subsection \<open>Type assertions\<close>

lemma asString_conv: "asString v = (if isString v then Some (stringValue v) else None)"
  by (induction v rule: asString.induct) simp_all

lemma isString_conv:
  assumes "isString v"
  shows "v = Some (JString (stringValue v))"
  using assms by (induction v rule: isString.induct) simp_all

lemma asString_eq_Some: "asString v = Some s \<longleftrightarrow> v = Some (JString s)"
  by (induction v rule: asString.induct) simp_all

lemma asBool_conv: "asBool v = (if isBoolean v then Some (boolValue v) else None)"
  by (induction v rule: asBool.induct) simp_all

lemma asMap_conv: "asMap v = (if isObject v then Some (objectValue v) else None)"
  by (induction v rule: asMap.induct) simp_all

lemma asMap_block: "asMap (Some b) = (case b of JObject m \<Rightarrow> Some m | _ \<Rightarrow> None)"
  by (cases b) simp_all

subsection \<open>User messages\<close>

lemma firstToolResult_conv:
  "firstToolResult arr =
     (case List.map_filter toolResultText arr of [] \<Rightarrow> None | t # _ \<Rightarrow> Some t)"
proof (induction arr)
  case Nil
  show ?case by simp
next
  case (Cons b rest)
  show ?case
  proof (cases b)
    case (JObject m)
    show ?thesis
    proof (cases "fmlookup m ''type'' = Some (JString ''tool_result'')")
      case True
      with JObject Cons show ?thesis
        by (simp split: option.splits)
    next
      case False
      then have "asString (fmlookup m ''type'') \<noteq> Some ''tool_result''"
        by (simp add: asString_conv) (metis isString.elims(2) stringValue.simps(1))
      with False JObject Cons show ?thesis
        by (simp split: option.splits)
    qed
  qed (simp_all add: Cons)
qed

lemma parseUserMessage_conv:
  "parseUserMessage (Some d) =
     (case userText d of
        Some s \<Rightarrow> Inr (UserMessage s)
      | None \<Rightarrow>
          Inl (MessageParseError ''Missing required field 'content' in user message'' (Some d)))"
proof (cases "fmlookup d ''message''")
  case None
  then show ?thesis
    by (simp add: parseUserMessage_def userDirect_def userText_def nestedContent_def mapIndex_def)
next
  case (Some v)
  show ?thesis
  proof (cases v)
    case (JObject m)
    show ?thesis
    proof (cases "fmlookup m ''content''")
      case None
      with Some JObject show ?thesis
        by (simp add: parseUserMessage_def userDirect_def userText_def nestedContent_def
            mapIndex_def)
    next
      case inner: (Some c)
      with Some JObject show ?thesis
        by (cases c)
          (simp_all add: parseUserMessage_def userDirect_def userText_def nestedContent_def
            mapIndex_def firstToolResult_conv extractToolResult_def split: list.splits)
    qed
  qed (simp_all add: Some parseUserMessage_def userDirect_def userText_def nestedContent_def
      mapIndex_def)
qed

lemma userText_None_iff:
  "userText d = None \<longleftrightarrow>
     \<not> isString (nestedContent d) \<and> \<not> isArray (nestedContent d) \<and>
     \<not> isString (fmlookup d ''content'')"
proof (cases "nestedContent d")
  case None
  then show ?thesis by (simp add: userText_def asString_conv)
next
  case (Some c)
  then show ?thesis by (cases c) (simp_all add: userText_def asString_conv)
qed

lemma ParseMessage_user:
  assumes "fmlookup d ''type'' = Some (JString ''user'')"
  shows "ParseMessage oor (Some d) = parseUserMessage (Some d)"
  using assms by (simp add: ParseMessage_def mapIndex_def)

subsection \<open>Assistant messages\<close>

lemma parseContentBlock_valid:
  assumes "validBlock (JObject b)"
  shows "parseContentBlock b = Inr (blockOf (JObject b))"
  using assms
  by (auto simp add: parseContentBlock_def parseToolUse_def parseToolResult_def asString_conv
      asMap_conv Let_def split: option.splits if_splits)

lemma parseContentBlock_invalid:
  assumes "\<not> validBlock (JObject b)"
  shows "\<exists>msg. parseContentBlock b = Inl (MessageParseError msg (Some b))"
  using assms
  by (auto simp add: parseContentBlock_def parseToolUse_def parseToolResult_def asString_conv
      asMap_conv Let_def split: option.splits if_splits)

lemma parseBlocks_valid:
  assumes "list_all validBlock arr"
  shows "parseBlocks data arr acc = Inr (acc @ map blockOf arr)"
  using assms
proof (induction arr arbitrary: acc)
  case Nil
  show ?case by simp
next
  case (Cons x rest)
  from Cons.prems obtain b where x: "x = JObject b"
    by (cases x) simp_all
  with Cons.prems have "parseContentBlock b = Inr (blockOf (JObject b))"
    by (simp add: parseContentBlock_valid)
  with x Cons show ?case by simp
qed

lemma parseBlocks_invalid:
  assumes "\<not> list_all validBlock arr"
  shows "\<exists>msg raw. parseBlocks data arr acc = Inl (MessageParseError msg raw)"
  using assms
proof (induction arr arbitrary: acc)
  case Nil
  then show ?case by simp
next
  case (Cons x rest)
  show ?case
  proof (cases "validBlock x")
    case True
    then obtain b where x: "x = JObject b"
      by (cases x) simp_all
    with True have "parseContentBlock b = Inr (blockOf (JObject b))"
      by (simp add: parseContentBlock_valid)
    moreover from True Cons.prems have "\<not> list_all validBlock rest" by simp
    ultimately show ?thesis using x Cons.IH by simp
  next
    case False
    show ?thesis
    proof (cases x)
      case (JObject b)
      with False obtain msg where "parseContentBlock b = Inl (MessageParseError msg (Some b))"
        using parseContentBlock_invalid by blast
      with JObject show ?thesis by simp
    qed simp_all
  qed
qed

lemma assistantContent_conv: "assistantContent (Some d) = assistantArray d"
proof (cases "fmlookup d ''message''")
  case None
  then show ?thesis
    by (simp add: assistantContent_def assistantArray_def nestedContent_def mapIndex_def
        split: option.splits)
next
  case (Some v)
  show ?thesis
  proof (cases v)
    case (JObject m)
    show ?thesis
    proof (cases "fmlookup m ''content''")
      case None
      with Some JObject show ?thesis
        by (simp add: assistantContent_def assistantArray_def nestedContent_def mapIndex_def
            split: option.splits)
    next
      case inner: (Some c)
      with Some JObject show ?thesis
        by (cases c)
          (simp_all add: assistantContent_def assistantArray_def nestedContent_def mapIndex_def
            split: option.splits)
    qed
  qed (simp_all add: Some assistantContent_def assistantArray_def nestedContent_def mapIndex_def
      split: option.splits)
qed

lemma ParseMessage_assistant:
  assumes "fmlookup d ''type'' = Some (JString ''assistant'')"
  shows "ParseMessage oor (Some d) = parseAssistantMessage (Some d)"
  using assms by (simp add: ParseMessage_def mapIndex_def)

lemma parseAssistantMessage_conv:
  "parseAssistantMessage (Some d) =
     (case assistantArray d of
        None \<Rightarrow>
          Inl (MessageParseError ''Missing required field 'content' in assistant message''
                 (Some d))
      | Some arr \<Rightarrow>
          (case parseBlocks (Some d) arr [] of
             Inl err \<Rightarrow> Inl err
           | Inr contentBlocks \<Rightarrow> Inr (AssistantMessage contentBlocks)))"
  by (simp add: parseAssistantMessage_def assistantContent_conv)

subsection \<open>Result messages\<close>

lemma getIntField_conv:
  "getIntField oor (Some d) k =
     (if isNumeric (fmlookup d k) then Some (numericValue oor (fmlookup d k)) else None)"
proof (cases "fmlookup d k")
  case None
  then show ?thesis by (simp add: getIntField_def mapIndex_def)
next
  case (Some v)
  show ?thesis
  proof (cases v)
    case (JFloat f)
    with Some show ?thesis
      by (cases f) (simp_all add: getIntField_def mapIndex_def float64ToInt_def fitsInt_def)
  qed (simp_all add: Some getIntField_def mapIndex_def)
qed

lemma resultOptionals_conv:
  "resultOptionals (Some d) m =
     m\<lparr> TotalCostUSD := (case asFloat64 (fmlookup d ''total_cost_usd'') of
                            Some c \<Rightarrow> Some c | None \<Rightarrow> TotalCostUSD m),
        Usage := (case asMap (fmlookup d ''usage'') of Some u \<Rightarrow> Some u | None \<Rightarrow> Usage m),
        Result := (case asString (fmlookup d ''result'') of Some s \<Rightarrow> Some s | None \<Rightarrow> Result m) \<rparr>"
  by (simp add: resultOptionals_def mapIndex_def Let_def split: option.splits)

lemma parseResultMessage_ok:
  assumes "resultRequired d"
  shows "parseResultMessage oor (Some d) =
     Inr \<lparr> Subtype = stringValue (fmlookup d ''subtype''),
           DurationMs = numericValue oor (fmlookup d ''duration_ms''),
           DurationAPIMs = numericValue oor (fmlookup d ''duration_api_ms''),
           IsError = boolValue (fmlookup d ''is_error''),
           NumTurns = numericValue oor (fmlookup d ''num_turns''),
           SessionID = stringValue (fmlookup d ''session_id''),
           TotalCostUSD = asFloat64 (fmlookup d ''total_cost_usd''),
           Usage = asMap (fmlookup d ''usage''),
           Result = asString (fmlookup d ''result'') \<rparr>"
  using assms
  by (simp add: parseResultMessage_def resultRequired_def getIntField_conv mapIndex_def
      asString_conv asBool_conv resultOptionals_conv NewResultMessage_def split: option.splits)

lemma parseResultMessage_fail:
  assumes "\<not> resultRequired d"
  shows "\<exists>msg. parseResultMessage oor (Some d) = Inl (MessageParseError msg (Some d))"
  using assms
  by (auto simp add: parseResultMessage_def resultRequired_def getIntField_conv mapIndex_def
      asString_conv asBool_conv)

lemma ParseMessage_result:
  assumes "fmlookup d ''type'' = Some (JString ''result'')"
  shows "ParseMessage oor (Some d) =
           (case parseResultMessage oor (Some d) of Inl e \<Rightarrow> Inl e | Inr m \<Rightarrow> Inr (ResultMsg m))"
  using assms by (simp add: ParseMessage_def mapIndex_def)

lemma ParseMessage_ResultMsg_type:
  assumes "ParseMessage oor (Some d) = Inr (ResultMsg r)"
  shows "fmlookup d ''type'' = Some (JString ''result'')"
proof -
  from assms obtain t where t: "asString (fmlookup d ''type'') = Some t"
    by (auto simp add: ParseMessage_def mapIndex_def split: option.splits)
  have "t = ''result''"
  proof (rule ccontr)
    assume "t \<noteq> ''result''"
    with assms t show False
      by (auto simp add: ParseMessage_def mapIndex_def parseUserMessage_conv
          parseAssistantMessage_def parseSystemMessage_def
          split: option.splits if_splits sum.splits)
  qed
  with t show ?thesis
    by (simp add: asString_conv split: if_splits)
      (metis isString.elims(2) stringValue.simps(1))
qed

lemma numericValue_nonneg:
  assumes "nonNegative v"
  shows "0 \<le> numericValue oor v"
proof (cases v)
  case None
  with assms show ?thesis by simp
next
  case (Some j)
  show ?thesis
  proof (cases j)
    case (JFloat f)
    show ?thesis
    proof (cases f)
      case (F64 x)
      with assms Some JFloat have x: "0 \<le> x" and hi: "truncReal x \<le> maxInt"
        by simp_all
      from x have tr: "truncReal x = \<lfloor>x\<rfloor>" by (simp add: truncReal_def)
      from x have fl: "0 \<le> \<lfloor>x\<rfloor>" by simp
      have "minInt \<le> 0" by (simp add: minInt_def)
      with fl have "minInt \<le> \<lfloor>x\<rfloor>" by linarith
      with tr fl have "0 \<le> truncReal x" and "minInt \<le> truncReal x" by simp_all
      with Some JFloat F64 hi show ?thesis by simp
    qed (use assms Some JFloat in simp_all)
  qed (use assms Some in simp_all)
qed

subsection \<open>The claims about the parser\<close>

text \<open>
  Claim C3. On an object of type \<^verbatim>\<open>result\<close>, \<open>ParseMessage\<close> succeeds exactly when
  \<^verbatim>\<open>subtype\<close> and \<^verbatim>\<open>session_id\<close> are strings, \<^verbatim>\<open>duration_ms\<close>, \<^verbatim>\<open>duration_api_ms\<close> and
  \<^verbatim>\<open>num_turns\<close> are numeric (integer or float) and \<^verbatim>\<open>is_error\<close> is a boolean, and
  fails with a parse error otherwise. The message then carries these values, the
  numbers as integers (a float truncated toward zero), and each of the optional
  fields \<^verbatim>\<open>total_cost_usd\<close> (float), \<^verbatim>\<open>usage\<close> (mapping) and \<^verbatim>\<open>result\<close> (string) when
  it is present with that type; an optional field that is absent or of another type
  is left out and causes no failure. The example object of the specification yields
  exactly its field values, with no optional field.
\<close>

theorem parse_result_message:
  "(fmlookup d ''type'' = Some (JString ''result'') \<longrightarrow>
      (resultRequired d \<longrightarrow>
         ParseMessage oor (Some d) =
           Inr (ResultMsg
             \<lparr> Subtype = stringValue (fmlookup d ''subtype''),
               DurationMs = numericValue oor (fmlookup d ''duration_ms''),
               DurationAPIMs = numericValue oor (fmlookup d ''duration_api_ms''),
               IsError = boolValue (fmlookup d ''is_error''),
               NumTurns = numericValue oor (fmlookup d ''num_turns''),
               SessionID = stringValue (fmlookup d ''session_id''),
               TotalCostUSD = asFloat64 (fmlookup d ''total_cost_usd''),
               Usage = asMap (fmlookup d ''usage''),
               Result = asString (fmlookup d ''result'') \<rparr>)) \<and>
      (\<not> resultRequired d \<longrightarrow>
         (\<exists>msg. ParseMessage oor (Some d) = Inl (MessageParseError msg (Some d))))) \<and>
   ParseMessage oor (Some result_example) =
     Inr (ResultMsg
       \<lparr> Subtype = ''success'', DurationMs = 1000, DurationAPIMs = 800, IsError = False,
         NumTurns = 2, SessionID = ''abc'', TotalCostUSD = None, Usage = None,
         Result = None \<rparr>)"
proof (intro conjI impI)
  assume t: "fmlookup d ''type'' = Some (JString ''result'')" and r: "resultRequired d"
  show "ParseMessage oor (Some d) =
          Inr (ResultMsg
            \<lparr> Subtype = stringValue (fmlookup d ''subtype''),
              DurationMs = numericValue oor (fmlookup d ''duration_ms''),
              DurationAPIMs = numericValue oor (fmlookup d ''duration_api_ms''),
              IsError = boolValue (fmlookup d ''is_error''),
              NumTurns = numericValue oor (fmlookup d ''num_turns''),
              SessionID = stringValue (fmlookup d ''session_id''),
              TotalCostUSD = asFloat64 (fmlookup d ''total_cost_usd''),
              Usage = asMap (fmlookup d ''usage''),
              Result = asString (fmlookup d ''result'') \<rparr>)"
    by (simp add: ParseMessage_result[OF t] parseResultMessage_ok[OF r])
next
  assume t: "fmlookup d ''type'' = Some (JString ''result'')" and r: "\<not> resultRequired d"
  from parseResultMessage_fail[OF r, of oor] obtain msg
    where "parseResultMessage oor (Some d) = Inl (MessageParseError msg (Some d))" ..
  then show "\<exists>msg. ParseMessage oor (Some d) = Inl (MessageParseError msg (Some d))"
    by (simp add: ParseMessage_result[OF t])
next
  have t: "fmlookup result_example ''type'' = Some (JString ''result'')"
    by (simp add: result_example_def)
  have r: "resultRequired result_example"
    by (simp add: result_example_def resultRequired_def)
  show "ParseMessage oor (Some result_example) =
          Inr (ResultMsg
            \<lparr> Subtype = ''success'', DurationMs = 1000, DurationAPIMs = 800,
              IsError = False, NumTurns = 2, SessionID = ''abc'', TotalCostUSD = None,
              Usage = None, Result = None \<rparr>)"
    by (simp add: ParseMessage_result[OF t] parseResultMessage_ok[OF r])
      (simp add: result_example_def truncReal_def minInt_def maxInt_def)
qed

text \<open>
  The theorem at two objects: one mixes a fractional float, an int and an int64 and
  has a usage of the wrong type; the other lacks \<^verbatim>\<open>session_id\<close>.
\<close>

theorem parse_result_message_witness:
  "fmlookup result_mixed ''type'' = Some (JString ''result'') \<and>
   resultRequired result_mixed \<and>
   ParseMessage (\<lambda>v. 0) (Some result_mixed) =
     Inr (ResultMsg
       \<lparr> Subtype = ''error_max_turns'', DurationMs = 1000, DurationAPIMs = 800,
         IsError = True, NumTurns = 2, SessionID = ''abc'',
         TotalCostUSD = Some (F64 (1 / 4)), Usage = None, Result = Some ''done'' \<rparr>) \<and>
   fmlookup result_incomplete ''type'' = Some (JString ''result'') \<and>
   \<not> resultRequired result_incomplete \<and>
   (\<exists>msg. ParseMessage (\<lambda>v. 0) (Some result_incomplete) =
            Inl (MessageParseError msg (Some result_incomplete)))"
proof -
  have t1: "fmlookup result_mixed ''type'' = Some (JString ''result'')"
    by (simp add: result_mixed_def)
  have r1: "resultRequired result_mixed"
    by (simp add: result_mixed_def resultRequired_def)
  have t2: "fmlookup result_incomplete ''type'' = Some (JString ''result'')"
    by (simp add: result_incomplete_def)
  have r2: "\<not> resultRequired result_incomplete"
    by (simp add: result_incomplete_def resultRequired_def)
  have fl: "\<lfloor>2001 / 2 :: real\<rfloor> = 1000" by simp
  from parse_result_message[of result_mixed "\<lambda>v. 0"] t1 r1
  have "ParseMessage (\<lambda>v. 0) (Some result_mixed) =
     Inr (ResultMsg
       \<lparr> Subtype = ''error_max_turns'', DurationMs = 1000, DurationAPIMs = 800,
         IsError = True, NumTurns = 2, SessionID = ''abc'',
         TotalCostUSD = Some (F64 (1 / 4)), Usage = None, Result = Some ''done'' \<rparr>)"
    by (simp add: result_mixed_def truncReal_def minInt_def maxInt_def fl)
  moreover from parse_result_message[of result_incomplete "\<lambda>v. 0"] t2 r2
  have "\<exists>msg. ParseMessage (\<lambda>v. 0) (Some result_incomplete) =
            Inl (MessageParseError msg (Some result_incomplete))"
    by simp
  ultimately show ?thesis using t1 r1 t2 r2 by simp
qed

text \<open>
  Claim C9, as stated: a Result message that \<open>ParseMessage\<close> returns has non-negative
  durations and turn count and a non-empty session identifier. The parser checks
  neither: the object below parses to a message in which all three numbers are
  negative and the session identifier is empty.
\<close>

theorem result_invariant_counterexample:
  "ParseMessage (\<lambda>v. 0) (Some result_negative) = Inr (ResultMsg result_negative_message) \<and>
   DurationMs result_negative_message < 0 \<and>
   DurationAPIMs result_negative_message < 0 \<and>
   NumTurns result_negative_message < 0 \<and>
   SessionID result_negative_message = []"
proof -
  have t: "fmlookup result_negative ''type'' = Some (JString ''result'')"
    by (simp add: result_negative_def)
  have r: "resultRequired result_negative"
    by (simp add: result_negative_def resultRequired_def)
  have "ParseMessage (\<lambda>v. 0) (Some result_negative) = Inr (ResultMsg result_negative_message)"
    by (simp add: ParseMessage_result[OF t] parseResultMessage_ok[OF r])
      (simp add: result_negative_def result_negative_message_def truncReal_def minInt_def
        maxInt_def)
  then show ?thesis by (simp add: result_negative_message_def)
qed

text \<open>
  Claim C9, amended. A Result message that \<open>ParseMessage\<close> returns carries the input's
  values: its durations and turn count are the integers the input's numbers stand for
  (a float truncated toward zero) and its session identifier is the input's string.
  So they are non-negative, and the identifier non-empty, whenever the input's numbers
  are non-negative (a float also within the range of int) and its \<^verbatim>\<open>session_id\<close> is
  not empty.
\<close>

theorem result_fields_follow_input:
  assumes "ParseMessage oor (Some d) = Inr (ResultMsg r)"
  shows "DurationMs r = numericValue oor (fmlookup d ''duration_ms'') \<and>
         DurationAPIMs r = numericValue oor (fmlookup d ''duration_api_ms'') \<and>
         NumTurns r = numericValue oor (fmlookup d ''num_turns'') \<and>
         fmlookup d ''session_id'' = Some (JString (SessionID r)) \<and>
         (nonNegative (fmlookup d ''duration_ms'') \<longrightarrow> 0 \<le> DurationMs r) \<and>
         (nonNegative (fmlookup d ''duration_api_ms'') \<longrightarrow> 0 \<le> DurationAPIMs r) \<and>
         (nonNegative (fmlookup d ''num_turns'') \<longrightarrow> 0 \<le> NumTurns r) \<and>
         (fmlookup d ''session_id'' \<noteq> Some (JString []) \<longrightarrow> SessionID r \<noteq> [])"
proof -
  have t: "fmlookup d ''type'' = Some (JString ''result'')"
    using assms by (rule ParseMessage_ResultMsg_type)
  have req: "resultRequired d"
  proof (rule ccontr)
    assume "\<not> resultRequired d"
    from parseResultMessage_fail[OF this, of oor] assms show False
      by (auto simp add: ParseMessage_result[OF t])
  qed
  from assms have r: "r =
     \<lparr> Subtype = stringValue (fmlookup d ''subtype''),
       DurationMs = numericValue oor (fmlookup d ''duration_ms''),
       DurationAPIMs = numericValue oor (fmlookup d ''duration_api_ms''),
       IsError = boolValue (fmlookup d ''is_error''),
       NumTurns = numericValue oor (fmlookup d ''num_turns''),
       SessionID = stringValue (fmlookup d ''session_id''),
       TotalCostUSD = asFloat64 (fmlookup d ''total_cost_usd''),
       Usage = asMap (fmlookup d ''usage''),
       Result = asString (fmlookup d ''result'') \<rparr>"
    by (simp add: ParseMessage_result[OF t] parseResultMessage_ok[OF req])
  from req have "isString (fmlookup d ''session_id'')"
    by (simp add: resultRequired_def)
  then have sid: "fmlookup d ''session_id'' = Some (JString (stringValue (fmlookup d ''session_id'')))"
    by (rule isString_conv)
  have sid': "fmlookup d ''session_id'' = Some (JString (SessionID r))"
    using sid by (simp add: r)
  have ne: "fmlookup d ''session_id'' \<noteq> Some (JString []) \<longrightarrow> SessionID r \<noteq> []"
    using sid' by auto
  show ?thesis
    using sid' ne by (simp add: r numericValue_nonneg)
qed

theorem result_fields_follow_input_witness:
  "ParseMessage (\<lambda>v. 0) (Some result_example) =
     Inr (ResultMsg
       \<lparr> Subtype = ''success'', DurationMs = 1000, DurationAPIMs = 800, IsError = False,
         NumTurns = 2, SessionID = ''abc'', TotalCostUSD = None, Usage = None,
         Result = None \<rparr>) \<and>
   nonNegative (fmlookup result_example ''duration_ms'') \<and>
   nonNegative (fmlookup result_example ''duration_api_ms'') \<and>
   nonNegative (fmlookup result_example ''num_turns'') \<and>
   fmlookup result_example ''session_id'' = Some (JString ''abc'') \<and>
   numericValue (\<lambda>v. 0) (fmlookup result_example ''duration_ms'') = 1000 \<and>
   numericValue (\<lambda>v. 0) (fmlookup result_example ''duration_api_ms'') = 800 \<and>
   numericValue (\<lambda>v. 0) (fmlookup result_example ''num_turns'') = 2"
proof -
  have t: "fmlookup result_example ''type'' = Some (JString ''result'')"
    by (simp add: result_example_def)
  have r: "resultRequired result_example"
    by (simp add: result_example_def resultRequired_def)
  have p: "ParseMessage (\<lambda>v. 0) (Some result_example) =
     Inr (ResultMsg
       \<lparr> Subtype = ''success'', DurationMs = 1000, DurationAPIMs = 800, IsError = False,
         NumTurns = 2, SessionID = ''abc'', TotalCostUSD = None, Usage = None,
         Result = None \<rparr>)"
    by (simp add: ParseMessage_result[OF t] parseResultMessage_ok[OF r])
      (simp add: result_example_def truncReal_def minInt_def maxInt_def)
  have nn: "nonNegative (fmlookup result_example ''duration_ms'')"
    "nonNegative (fmlookup result_example ''duration_api_ms'')"
    "nonNegative (fmlookup result_example ''num_turns'')"
    by (simp_all add: result_example_def truncReal_def maxInt_def)
  from result_fields_follow_input[OF p] nn p show ?thesis
    by (simp add: result_example_def)
qed

text \<open>
  Claim C5. On an object of type \<^verbatim>\<open>user\<close>, \<open>ParseMessage\<close> takes the text from the
  first shape that applies, in this order: a string under \<^verbatim>\<open>message.content\<close>; an array
  under \<^verbatim>\<open>message.content\<close>, which gives the first string content of a \<^verbatim>\<open>tool_result\<close>
  block of the array, or the placeholder when no such block has one; a string under
  the top-level \<^verbatim>\<open>content\<close>. It returns a User message with that text, and it fails
  with a parse error exactly when none of the three shapes applies.
\<close>

theorem parse_user_message:
  "fmlookup d ''type'' = Some (JString ''user'') \<longrightarrow>
     ParseMessage oor (Some d) =
       (case nestedContent d of
          Some (JString s) \<Rightarrow> Inr (UserMessage s)
        | Some (JArray arr) \<Rightarrow>
            Inr (UserMessage
                   (case List.map_filter toolResultText arr of
                      [] \<Rightarrow> ''[Tool result message]''
                    | t # _ \<Rightarrow> t))
        | _ \<Rightarrow>
            (case fmlookup d ''content'' of
               Some (JString s) \<Rightarrow> Inr (UserMessage s)
             | _ \<Rightarrow>
                 Inl (MessageParseError ''Missing required field 'content' in user message''
                        (Some d)))) \<and>
     ((\<exists>e. ParseMessage oor (Some d) = Inl e) \<longleftrightarrow>
        \<not> isString (nestedContent d) \<and> \<not> isArray (nestedContent d) \<and>
        \<not> isString (fmlookup d ''content''))"
proof (intro impI conjI)
  assume t: "fmlookup d ''type'' = Some (JString ''user'')"
  have direct: "(case asString (fmlookup d ''content'') of
                   Some s \<Rightarrow> Inr (UserMessage s)
                 | None \<Rightarrow>
                     Inl (MessageParseError
                            ''Missing required field 'content' in user message'' (Some d))) =
                (case fmlookup d ''content'' of
                   Some (JString s) \<Rightarrow> Inr (UserMessage s)
                 | _ \<Rightarrow>
                     Inl (MessageParseError
                            ''Missing required field 'content' in user message'' (Some d)))"
  proof (cases "fmlookup d ''content''")
    case None
    then show ?thesis by simp
  next
    case (Some c)
    then show ?thesis by (cases c) simp_all
  qed
  show "ParseMessage oor (Some d) =
       (case nestedContent d of
          Some (JString s) \<Rightarrow> Inr (UserMessage s)
        | Some (JArray arr) \<Rightarrow>
            Inr (UserMessage
                   (case List.map_filter toolResultText arr of
                      [] \<Rightarrow> ''[Tool result message]''
                    | t # _ \<Rightarrow> t))
        | _ \<Rightarrow>
            (case fmlookup d ''content'' of
               Some (JString s) \<Rightarrow> Inr (UserMessage s)
             | _ \<Rightarrow>
                 Inl (MessageParseError ''Missing required field 'content' in user message''
                        (Some d))))"
  proof (cases "nestedContent d")
    case None
    then show ?thesis
      by (simp add: ParseMessage_user[OF t] parseUserMessage_conv userText_def direct)
  next
    case (Some c)
    then show ?thesis
      by (cases c)
        (simp_all add: ParseMessage_user[OF t] parseUserMessage_conv userText_def direct
          extractToolResult_def)
  qed
  have "(\<exists>e. ParseMessage oor (Some d) = Inl e) \<longleftrightarrow> userText d = None"
    by (auto simp add: ParseMessage_user[OF t] parseUserMessage_conv split: option.splits)
  then show "(\<exists>e. ParseMessage oor (Some d) = Inl e) \<longleftrightarrow>
               \<not> isString (nestedContent d) \<and> \<not> isArray (nestedContent d) \<and>
               \<not> isString (fmlookup d ''content'')"
    by (simp add: userText_None_iff)
qed

text \<open>
  The theorem at an object whose nested array has a text block, a \<^verbatim>\<open>tool_result\<close>
  block without string content and a \<^verbatim>\<open>tool_result\<close> block with the content \<^verbatim>\<open>42\<close>
  (the top-level content is not looked at), and at an object with no shape at all.
\<close>

theorem parse_user_message_witness:
  "fmlookup user_tool_result ''type'' = Some (JString ''user'') \<and>
   ParseMessage (\<lambda>v. 0) (Some user_tool_result) = Inr (UserMessage ''42'') \<and>
   fmlookup user_empty ''type'' = Some (JString ''user'') \<and>
   ParseMessage (\<lambda>v. 0) (Some user_empty) =
     Inl (MessageParseError ''Missing required field 'content' in user message''
            (Some user_empty))"
proof -
  have t1: "fmlookup user_tool_result ''type'' = Some (JString ''user'')"
    by (simp add: user_tool_result_def)
  have t2: "fmlookup user_empty ''type'' = Some (JString ''user'')"
    by (simp add: user_empty_def)
  have n1: "nestedContent user_tool_result =
     Some (JArray
            [JObject (fmap_of_list [(''type'', JString ''text''), (''text'', JString ''t'')]),
             JObject (fmap_of_list [(''type'', JString ''tool_result''),
                                    (''content'', JArray [])]),
             JObject (fmap_of_list [(''type'', JString ''tool_result''),
                                    (''content'', JString ''42'')])])"
    by (simp add: user_tool_result_def nestedContent_def)
  have n2: "nestedContent user_empty = None"
    by (simp add: user_empty_def nestedContent_def)
  have c2: "fmlookup user_empty ''content'' = Some (JFloat (F64 1))"
    by (simp add: user_empty_def)
  from parse_user_message[of user_tool_result "\<lambda>v. 0"] t1
  have "ParseMessage (\<lambda>v. 0) (Some user_tool_result) = Inr (UserMessage ''42'')"
    by (simp add: n1)
  moreover from parse_user_message[of user_empty "\<lambda>v. 0"] t2
  have "ParseMessage (\<lambda>v. 0) (Some user_empty) =
     Inl (MessageParseError ''Missing required field 'content' in user message''
            (Some user_empty))"
    by (simp add: n2 c2)
  ultimately show ?thesis using t1 t2 by simp
qed

text \<open>
  Claim C6. On an object of type \<^verbatim>\<open>assistant\<close>, \<open>ParseMessage\<close> takes the content array
  nested under \<^verbatim>\<open>message.content\<close>, or else the top-level \<^verbatim>\<open>content\<close> array, and fails
  with a parse error when there is neither. When every element of the array is a
  well-formed block (an object whose type is \<^verbatim>\<open>text\<close>, \<^verbatim>\<open>tool_use\<close> or \<^verbatim>\<open>tool_result\<close>,
  with \<^verbatim>\<open>text\<close>; \<^verbatim>\<open>id\<close>, \<^verbatim>\<open>name\<close> and \<^verbatim>\<open>input\<close>; or \<^verbatim>\<open>tool_use_id\<close>), the result is an
  Assistant message with the blocks of the elements in the order of the array; when
  some element is not, the result is a parse error. The example object of the
  specification yields one Text block containing \<^verbatim>\<open>hi\<close>.
\<close>

theorem parse_assistant_message:
  "(fmlookup d ''type'' = Some (JString ''assistant'') \<longrightarrow>
      (case assistantArray d of
         None \<Rightarrow>
           ParseMessage oor (Some d) =
             Inl (MessageParseError
                    ''Missing required field 'content' in assistant message'' (Some d))
       | Some arr \<Rightarrow>
           (list_all validBlock arr \<longrightarrow>
              ParseMessage oor (Some d) = Inr (AssistantMessage (map blockOf arr))) \<and>
           (\<not> list_all validBlock arr \<longrightarrow>
              (\<exists>msg raw. ParseMessage oor (Some d) = Inl (MessageParseError msg raw))))) \<and>
   ParseMessage oor (Some assistant_example) = Inr (AssistantMessage [TextBlock ''hi''])"
proof (intro conjI impI)
  assume t: "fmlookup d ''type'' = Some (JString ''assistant'')"
  show "case assistantArray d of
          None \<Rightarrow>
            ParseMessage oor (Some d) =
              Inl (MessageParseError
                     ''Missing required field 'content' in assistant message'' (Some d))
        | Some arr \<Rightarrow>
            (list_all validBlock arr \<longrightarrow>
               ParseMessage oor (Some d) = Inr (AssistantMessage (map blockOf arr))) \<and>
            (\<not> list_all validBlock arr \<longrightarrow>
               (\<exists>msg raw. ParseMessage oor (Some d) = Inl (MessageParseError msg raw)))"
  proof (cases "assistantArray d")
    case None
    then show ?thesis
      by (simp add: ParseMessage_assistant[OF t] parseAssistantMessage_conv)
  next
    case (Some arr)
    have ok: "ParseMessage oor (Some d) = Inr (AssistantMessage (map blockOf arr))"
      if "list_all validBlock arr"
      using parseBlocks_valid[OF that, of "Some d" "[]"] Some
      by (simp add: ParseMessage_assistant[OF t] parseAssistantMessage_conv)
    have bad: "\<exists>msg raw. ParseMessage oor (Some d) = Inl (MessageParseError msg raw)"
      if "\<not> list_all validBlock arr"
    proof -
      from parseBlocks_invalid[OF that, of "Some d" "[]"] obtain msg raw
        where "parseBlocks (Some d) arr [] = Inl (MessageParseError msg raw)" by blast
      with Some show ?thesis
        by (simp add: ParseMessage_assistant[OF t] parseAssistantMessage_conv)
    qed
    from ok bad Some show ?thesis by simp
  qed
next
  have t: "fmlookup assistant_example ''type'' = Some (JString ''assistant'')"
    by (simp add: assistant_example_def)
  have a: "assistantArray assistant_example =
             Some [JObject (fmap_of_list [(''type'', JString ''text''),
                                          (''text'', JString ''hi'')])]"
    by (simp add: assistant_example_def assistantArray_def nestedContent_def)
  have v: "list_all validBlock
             [JObject (fmap_of_list [(''type'', JString ''text''),
                                     (''text'', JString ''hi'')])]"
    by simp
  from parseBlocks_valid[OF v, of "Some assistant_example" "[]"] a
  show "ParseMessage oor (Some assistant_example) = Inr (AssistantMessage [TextBlock ''hi''])"
    by (simp add: ParseMessage_assistant[OF t] parseAssistantMessage_conv)
qed

text \<open>
  The theorem at a top-level array with one block of each type, kept in order, and
  at an array whose second element has the unknown type \<^verbatim>\<open>image\<close>.
\<close>

theorem parse_assistant_message_witness:
  "fmlookup assistant_three ''type'' = Some (JString ''assistant'') \<and>
   ParseMessage (\<lambda>v. 0) (Some assistant_three) =
     Inr (AssistantMessage
            [TextBlock ''a'', ToolUseBlock ''u1'' ''Bash'' fmempty,
             ToolResultBlock ''u1'' JNil (Some False)]) \<and>
   fmlookup assistant_bad_block ''type'' = Some (JString ''assistant'') \<and>
   (\<exists>msg raw. ParseMessage (\<lambda>v. 0) (Some assistant_bad_block) =
                Inl (MessageParseError msg raw))"
proof -
  have t1: "fmlookup assistant_three ''type'' = Some (JString ''assistant'')"
    by (simp add: assistant_three_def)
  have t2: "fmlookup assistant_bad_block ''type'' = Some (JString ''assistant'')"
    by (simp add: assistant_bad_block_def)
  have a1: "assistantArray assistant_three =
     Some [JObject (fmap_of_list [(''type'', JString ''text''), (''text'', JString ''a'')]),
           JObject (fmap_of_list [(''type'', JString ''tool_use''), (''id'', JString ''u1''),
                                  (''name'', JString ''Bash''),
                                  (''input'', JObject fmempty)]),
           JObject (fmap_of_list [(''type'', JString ''tool_result''),
                                  (''tool_use_id'', JString ''u1''),
                                  (''is_error'', JBool False)])]"
    by (simp add: assistant_three_def assistantArray_def nestedContent_def)
  have a2: "assistantArray assistant_bad_block =
     Some [JObject (fmap_of_list [(''type'', JString ''text''), (''text'', JString ''a'')]),
           JObject (fmap_of_list [(''type'', JString ''image'')])]"
    by (simp add: assistant_bad_block_def assistantArray_def nestedContent_def)
  from parse_assistant_message[of assistant_three "\<lambda>v. 0"] t1
  have "ParseMessage (\<lambda>v. 0) (Some assistant_three) =
     Inr (AssistantMessage
            [TextBlock ''a'', ToolUseBlock ''u1'' ''Bash'' fmempty,
             ToolResultBlock ''u1'' JNil (Some False)])"
    by (simp add: a1)
  moreover from parse_assistant_message[of assistant_bad_block "\<lambda>v. 0"] t2
  have "\<exists>msg raw. ParseMessage (\<lambda>v. 0) (Some assistant_bad_block) =
                Inl (MessageParseError msg raw)"
    by (simp add: a2)
  ultimately show ?thesis using t1 t2 by simp
qed

section \<open>Properties of the process transport\<close>

subsection \<open>Argument construction\<close>

lemma appendIf_conv: "appendIf cond args extra = args @ (if cond then extra else [])"
  by (simp add: appendIf_def)

lemma buildCommand_Some:
  "buildCommand L (Some opts) prompt =
     [''--output-format'', ''stream-json'', ''--verbose''] @
     flagString ''--system-prompt'' (SystemPrompt opts) @
     flagString ''--append-system-prompt'' (AppendSystemPrompt opts) @
     flagList ''--allowedTools'' (AllowedTools opts) @
     flagPositive ''--max-turns'' (MaxTurns opts) @
     flagList ''--disallowedTools'' (DisallowedTools opts) @
     flagString ''--model'' (Model opts) @
     flagString ''--permission-prompt-tool'' (PermissionPromptToolName opts) @
     flagString ''--permission-mode'' (PermissionMode opts) @
     flagBool ''--continue'' (ContinueConversation opts) @
     flagString ''--resume'' (Resume opts) @
     flagMcp L ''--mcp-config'' (McpServers opts) @
     [''--print'', prompt]"
  unfolding buildCommand_def Let_def appendIf_conv flagString_def flagList_def
    flagPositive_def flagBool_def flagMcp_def option.case length_greater_0_conv append_assoc
  by (rule refl)

lemma buildCommand_None:
  "buildCommand L None prompt =
     [''--output-format'', ''stream-json'', ''--verbose'', ''--print'', prompt]"
  by (simp add: buildCommand_def)

lemma buildCommand_ignores:
  "buildCommand L (Some (opts\<lparr>MaxThinkingTokens := a, McpTools := b, CWD := c\<rparr>)) prompt =
   buildCommand L (Some opts) prompt"
  unfolding buildCommand_def Let_def option.case by simp

lemma Connect_options:
  assumes "buildCommand L o1 prompt = buildCommand L o2 prompt"
  shows "Connect H L t o1 prompt = Connect H L t o2 prompt"
  unfolding Connect_def assms ..

subsection \<open>Connect\<close>

lemma Connect_workdir:
  assumes "resolvedPath H t = Inr path" and "workingDirError H t = Some e"
  shows "Connect H L t options prompt =
           (Some (CLIConnectionError (''Working directory does not exist: '' @ cwd t) (Some e)),
            t\<lparr>cliPath := path,
              cmd := Some \<lparr> cmdPath = path, cmdArgs = path # buildCommand L options prompt,
                            cmdDir = [], cmdEnv = [], cmdProcess = False \<rparr>\<rparr>)"
  using assms
  by (simp add: Connect_def resolvedPath_def workingDirError_def Let_def split: if_splits)

lemma Connect_start_fails:
  assumes "resolvedPath H t = Inr path" and "workingDirError H t = None"
    and "StdinPipe H = None" and "StdoutPipe H = None" and "StderrPipe H = None"
    and "Start H (commandAtStart H L t path options prompt) = Some e"
  shows "fst (Connect H L t options prompt) =
           Some (if filepathBase L path = ''claude''
                 then CLINotFoundError path (Some e)
                 else ProcessError ''failed to start CLI process'' 0 [] (Some e))"
  using assms
  by (simp add: Connect_def resolvedPath_def workingDirError_def commandAtStart_def Let_def
      split: if_splits)

lemma Connect_start_fails_not_started:
  assumes "resolvedPath H t = Inr path" and "workingDirError H t = None"
    and "StdinPipe H = None" and "StdoutPipe H = None" and "StderrPipe H = None"
    and "Start H (commandAtStart H L t path options prompt) = Some e"
  shows "\<not> processStarted (snd (Connect H L t options prompt))"
  using assms
  by (simp add: Connect_def resolvedPath_def workingDirError_def commandAtStart_def Let_def
      processStarted_def split: if_splits)

lemma Connect_ok:
  assumes "resolvedPath H t = Inr path" and "workingDirError H t = None"
    and "StdinPipe H = None" and "StdoutPipe H = None" and "StderrPipe H = None"
    and "Start H (commandAtStart H L t path options prompt) = None"
  shows "Connect H L t options prompt =
           (None, t\<lparr>cliPath := path,
                    cmd := Some ((commandAtStart H L t path options prompt)\<lparr>cmdProcess := True\<rparr>),
                    stdin := True, stdout := True, stderr := True\<rparr>)"
  using assms
  by (simp add: Connect_def resolvedPath_def workingDirError_def commandAtStart_def Let_def
      split: if_splits)

subsection \<open>The message stream\<close>

lemma trySend_ok:
  assumes "\<not> cancelled (tick c)"
  shows "trySend cancelled m c = (True, (step c)\<lparr>sent := sent c @ [m]\<rparr>)"
  using assms by (simp add: trySend_def)

lemma receiveLoop_skip:
  assumes "\<not> cancelled (tick c)" and "lineMessage L scanned = None"
  shows "receiveLoop L cancelled (scanned # rest) c = receiveLoop L cancelled rest (step c)"
  using assms
  by (auto simp add: lineMessage_def Let_def split: if_splits decode_result.splits sum.splits)

lemma receiveLoop_emit:
  assumes "\<not> cancelled (tick c)" and "\<not> cancelled (Suc (tick c))"
    and "lineMessage L scanned = Some m"
  shows "receiveLoop L cancelled (scanned # rest) c =
           receiveLoop L cancelled rest ((step (step c))\<lparr>sent := sent c @ [m]\<rparr>)"
  using assms
  by (auto simp add: lineMessage_def Let_def trySend_def step_def
      split: if_splits decode_result.splits sum.splits)

lemma receiveLoop_never_cancelled:
  assumes "neverCancelled cancelled"
  shows "fst (receiveLoop L cancelled toks c) \<and>
         sent (snd (receiveLoop L cancelled toks c)) =
           sent c @ List.map_filter (lineMessage L) toks"
proof (induction toks arbitrary: c)
  case Nil
  show ?case by simp
next
  case (Cons scanned rest)
  from assms have nc: "\<not> cancelled (tick c)" "\<not> cancelled (Suc (tick c))"
    by (simp_all add: neverCancelled_def)
  show ?case
  proof (cases "lineMessage L scanned")
    case None
    with nc Cons[of "step c"] show ?thesis
      by (simp add: receiveLoop_skip step_def del: receiveLoop.simps)
  next
    case (Some m)
    with nc Cons[of "(step (step c))\<lparr>sent := sent c @ [m]\<rparr>"] show ?thesis
      by (simp add: receiveLoop_emit del: receiveLoop.simps)
  qed
qed

lemma collectStderr_never_cancelled:
  assumes "neverCancelled cancelled"
  shows "fst (collectStderr cancelled evs ls sz c) = Some (stderrCollected evs ls sz) \<and>
         sent (snd (collectStderr cancelled evs ls sz c)) = sent c"
proof (induction evs arbitrary: ls sz c)
  case Nil
  from assms show ?case by (simp add: neverCancelled_def step_def)
next
  case (Cons ev evs)
  from assms have nc: "\<not> cancelled (tick c)" by (simp add: neverCancelled_def)
  show ?case
  proof (cases ev)
    case (StderrLine line)
    with nc Cons[of "ls @ [line]" "sz + length line" "step c"] show ?thesis
      by (simp add: step_def)
  next
    case StderrTimeout
    with nc show ?thesis by (simp add: step_def)
  qed
qed

lemma handleProcessCompletion_never_cancelled:
  assumes "neverCancelled cancelled"
  shows "sent (handleProcessCompletion cancelled t p c) = sent c @ exitDiagnostic t p"
proof (cases "stderr t")
  case True
  obtain r c1 where r: "collectStderr cancelled (stderrEvents p) [] 0 c = (r, c1)"
    by (cases "collectStderr cancelled (stderrEvents p) [] 0 c")
  with collectStderr_never_cancelled[OF assms, of "stderrEvents p" "[]" 0 c]
  have "r = Some (stderrCollected (stderrEvents p) [] 0)" and "sent c1 = sent c"
    by simp_all
  moreover from assms have "\<not> cancelled (tick c1)" by (simp add: neverCancelled_def)
  ultimately show ?thesis using True r
    by (simp add: handleProcessCompletion_def exitDiagnostic_def stderrOutput_def Let_def
        trySend_def step_def)
next
  case False
  moreover from assms have "\<not> cancelled (tick c)" by (simp add: neverCancelled_def)
  ultimately show ?thesis
    by (simp add: handleProcessCompletion_def exitDiagnostic_def stderrOutput_def Let_def
        trySend_def step_def)
qed

lemma receiveGoroutine_never_cancelled:
  assumes "neverCancelled cancelled"
  shows "sent (receiveGoroutine L cancelled t p c) =
           sent c @ stdoutMessages L p @ exitDiagnostic t p"
proof -
  obtain tokens scanErr where sc: "scanLines (stdoutLines p) (stdoutError p) = (tokens, scanErr)"
    by (cases "scanLines (stdoutLines p) (stdoutError p)")
  obtain ok c1 where rl: "receiveLoop L cancelled tokens c = (ok, c1)"
    by (cases "receiveLoop L cancelled tokens c")
  with receiveLoop_never_cancelled[OF assms, of L tokens c]
  have ok: "ok" and c1: "sent c1 = sent c @ List.map_filter (lineMessage L) tokens"
    by simp_all
  from assms have nc: "\<not> cancelled (tick c1)" by (simp add: neverCancelled_def)
  show ?thesis
  proof (cases scanErr)
    case None
    with sc rl ok c1 show ?thesis
      by (simp add: receiveGoroutine_def stdoutMessages_def
          handleProcessCompletion_never_cancelled[OF assms])
  next
    case (Some err)
    with sc rl ok c1 nc show ?thesis
      by (simp add: receiveGoroutine_def stdoutMessages_def trySend_def
          handleProcessCompletion_never_cancelled[OF assms])
  qed
qed

lemma ReceiveMessages_never_cancelled:
  assumes "neverCancelled cancelled" and "cmd t \<noteq> None"
  shows "ReceiveMessages L cancelled t p = Inr (stdoutMessages L p @ exitDiagnostic t p)"
  using assms(2) by (simp add: ReceiveMessages_def receiveGoroutine_never_cancelled[OF assms(1)])

lemma scanLines_short:
  assumes "\<forall>l \<in> set pre. length l < maxScanTokenSize"
  shows "scanLines (pre @ rest) e =
           (map dropCR pre @ fst (scanLines rest e), snd (scanLines rest e))"
  using assms by (induction pre) (simp_all split: prod.splits)

lemma scanLines_too_long:
  assumes "length big \<ge> maxScanTokenSize"
  shows "scanLines (big # post) e = ([], Some ''bufio.Scanner: token too long'')"
  using assms by simp

lemma scanLines_token_bound:
  "\<forall>tok \<in> set (fst (scanLines ls e)). length tok < maxScanTokenSize"
proof (induction ls)
  case Nil
  show ?case by simp
next
  case (Cons l ls)
  have "length (dropCR l) \<le> length l" by (simp add: dropCR_def)
  with Cons show ?case by (auto split: prod.splits)
qed

subsection \<open>The claims about argument construction and Connect\<close>

text \<open>
  Claim C2. For every prompt and every options value, the argument list of
  \<open>buildCommand\<close> begins with \<^verbatim>\<open>--output-format stream-json --verbose\<close>, ends with
  \<^verbatim>\<open>--print\<close> and the prompt, and has between them the optional flags in the fixed
  order \<^verbatim>\<open>--system-prompt\<close>, \<^verbatim>\<open>--append-system-prompt\<close>, \<^verbatim>\<open>--allowedTools\<close>,
  \<^verbatim>\<open>--max-turns\<close>, \<^verbatim>\<open>--disallowedTools\<close>, \<^verbatim>\<open>--model\<close>, \<^verbatim>\<open>--permission-prompt-tool\<close>,
  \<^verbatim>\<open>--permission-mode\<close>, \<^verbatim>\<open>--continue\<close>, \<^verbatim>\<open>--resume\<close>, \<^verbatim>\<open>--mcp-config\<close>: each one
  there exactly when its field is non-empty (a string, a list, the server map), true
  (\<^verbatim>\<open>ContinueConversation\<close>) or positive (\<^verbatim>\<open>MaxTurns\<close>). A list is joined with commas,
  and \<^verbatim>\<open>--mcp-config\<close> carries the JSON encoding of the object with the key
  \<^verbatim>\<open>mcpServers\<close>. Without options (a nil pointer) no optional flag is there.
\<close>

theorem build_command_arguments:
  "buildCommand L (Some opts) prompt =
     [''--output-format'', ''stream-json'', ''--verbose''] @
     flagString ''--system-prompt'' (SystemPrompt opts) @
     flagString ''--append-system-prompt'' (AppendSystemPrompt opts) @
     flagList ''--allowedTools'' (AllowedTools opts) @
     flagPositive ''--max-turns'' (MaxTurns opts) @
     flagList ''--disallowedTools'' (DisallowedTools opts) @
     flagString ''--model'' (Model opts) @
     flagString ''--permission-prompt-tool'' (PermissionPromptToolName opts) @
     flagString ''--permission-mode'' (PermissionMode opts) @
     flagBool ''--continue'' (ContinueConversation opts) @
     flagString ''--resume'' (Resume opts) @
     flagMcp L ''--mcp-config'' (McpServers opts) @
     [''--print'', prompt] \<and>
   buildCommand L None prompt =
     [''--output-format'', ''stream-json'', ''--verbose'', ''--print'', prompt]"
  using buildCommand_Some[of L opts prompt] buildCommand_None[of L prompt]
  by (rule conjI)

text \<open>
  The theorem at options with a system prompt, three allowed tools, five turns, a
  model, a permission mode, the continue flag and one MCP server.
\<close>

theorem build_command_arguments_witness:
  "\<forall>L. buildCommand L (Some options_example) ''hello'' =
     [''--output-format'', ''stream-json'', ''--verbose'',
      ''--system-prompt'', ''You are a helpful coding assistant'',
      ''--allowedTools'', ''Read,Write,Bash'',
      ''--max-turns'', ''5'',
      ''--model'', ''sonnet'',
      ''--permission-mode'', ''acceptEdits'',
      ''--continue'',
      ''--mcp-config'',
      jsonMarshal L (fmupd ''mcpServers'' (McpServers options_example) fmempty),
      ''--print'', ''hello'']"
proof
  fix L
  have servers: "fmdom (McpServers options_example) \<noteq> {||}"
    by (simp add: options_example_def)
  have fields:
    "SystemPrompt options_example = ''You are a helpful coding assistant''"
    "AppendSystemPrompt options_example = []"
    "AllowedTools options_example = [''Read'', ''Write'', ''Bash'']"
    "MaxTurns options_example = 5"
    "DisallowedTools options_example = []"
    "Model options_example = ''sonnet''"
    "PermissionPromptToolName options_example = []"
    "PermissionMode options_example = ''acceptEdits''"
    "ContinueConversation options_example"
    "Resume options_example = []"
    by (simp_all add: options_example_def)
  have five: "formatInt 5 = ''5''"
    by (simp add: formatInt_def digitsOf.simps)
  from build_command_arguments[of L options_example "''hello''"]
  show "buildCommand L (Some options_example) ''hello'' =
     [''--output-format'', ''stream-json'', ''--verbose'',
      ''--system-prompt'', ''You are a helpful coding assistant'',
      ''--allowedTools'', ''Read,Write,Bash'',
      ''--max-turns'', ''5'',
      ''--model'', ''sonnet'',
      ''--permission-mode'', ''acceptEdits'',
      ''--continue'',
      ''--mcp-config'',
      jsonMarshal L (fmupd ''mcpServers'' (McpServers options_example) fmempty),
      ''--print'', ''hello'']"
    by (simp add: fields servers five flagString_def flagList_def flagPositive_def
        flagBool_def flagMcp_def)
qed

text \<open>
  Claim C10. Two options values that differ only in \<^verbatim>\<open>MaxThinkingTokens\<close>, \<^verbatim>\<open>McpTools\<close>
  or \<^verbatim>\<open>CWD\<close> give the same argument list and the same result of \<^verbatim>\<open>Connect\<close> in
  \<^verbatim>\<open>Client.Query\<close>, command and working directory included; and when \<^verbatim>\<open>Connect\<close>
  succeeds, the working directory of the command is the one the client was built
  with (\<^verbatim>\<open>ClientOptions.CWD\<close>), whatever the query options are.
\<close>

theorem unused_query_options:
  "(o1\<lparr>MaxThinkingTokens := MaxThinkingTokens o2, McpTools := McpTools o2, CWD := CWD o2\<rparr> = o2
      \<longrightarrow>
      buildCommand L (Some o1) prompt = buildCommand L (Some o2) prompt \<and>
      QueryConnect H L client prompt (Some o1) = QueryConnect H L client prompt (Some o2)) \<and>
   (fst (QueryConnect H L (NewClient (Some copts)) prompt options) = None \<longrightarrow>
      (\<exists>c. cmd (snd (QueryConnect H L (NewClient (Some copts)) prompt options)) = Some c \<and>
           cmdDir c = ClientCWD copts))"
proof (intro conjI impI)
  assume eq: "o1\<lparr>MaxThinkingTokens := MaxThinkingTokens o2, McpTools := McpTools o2,
                  CWD := CWD o2\<rparr> = o2"
  have "buildCommand L (Some o2) prompt =
          buildCommand L (Some (o1\<lparr>MaxThinkingTokens := MaxThinkingTokens o2,
                                    McpTools := McpTools o2, CWD := CWD o2\<rparr>)) prompt"
    by (simp only: eq)
  also have "\<dots> = buildCommand L (Some o1) prompt"
    by (rule buildCommand_ignores)
  finally show b: "buildCommand L (Some o1) prompt = buildCommand L (Some o2) prompt"
    by (rule sym)
  show "QueryConnect H L client prompt (Some o1) = QueryConnect H L client prompt (Some o2)"
    unfolding QueryConnect_def by (rule Connect_options[OF b])
next
  let ?t = "NewSubprocessTransport (clientCliPath (NewClient (Some copts)))
              (clientCwd (NewClient (Some copts)))"
  assume ok: "fst (QueryConnect H L (NewClient (Some copts)) prompt options) = None"
  have dir: "cwd ?t = ClientCWD copts"
    by (simp add: NewSubprocessTransport_def NewClient_def Let_def)
  from ok have ok': "fst (Connect H L ?t options prompt) = None"
    by (simp add: QueryConnect_def)
  obtain path where path: "resolvedPath H ?t = Inr path"
    using ok' by (cases "resolvedPath H ?t") (auto simp add: Connect_def resolvedPath_def)
  from ok' path have wd: "workingDirError H ?t = None"
    by (cases "workingDirError H ?t")
      (auto simp add: Connect_def resolvedPath_def workingDirError_def Let_def
        split: if_splits)
  from ok' path wd have pipes: "StdinPipe H = None" "StdoutPipe H = None" "StderrPipe H = None"
    by (auto simp add: Connect_def resolvedPath_def workingDirError_def Let_def
        split: if_splits option.splits)
  from ok' path wd pipes
  have st: "Start H (commandAtStart H L ?t path options prompt) = None"
    by (auto simp add: Connect_def resolvedPath_def workingDirError_def commandAtStart_def
        Let_def split: if_splits option.splits)
  from Connect_ok[OF path wd pipes st]
  have "cmd (snd (Connect H L ?t options prompt)) =
          Some ((commandAtStart H L ?t path options prompt)\<lparr>cmdProcess := True\<rparr>)"
    by simp
  moreover have "cmdDir ((commandAtStart H L ?t path options prompt)\<lparr>cmdProcess := True\<rparr>) =
                   ClientCWD copts"
    using dir by (simp add: commandAtStart_def)
  ultimately show "\<exists>c. cmd (snd (QueryConnect H L (NewClient (Some copts)) prompt options)) =
                         Some c \<and> cmdDir c = ClientCWD copts"
    by (simp add: QueryConnect_def)
qed

text \<open>
  The theorem at the example options and a copy with other values in the three
  fields, for a client built with the working directory \<^verbatim>\<open>/tmp\<close>.
\<close>

theorem unused_query_options_witness:
  "\<forall>L. buildCommand L
          (Some (options_example\<lparr>MaxThinkingTokens := 8000, McpTools := [''search''],
                                 CWD := ''/srv''\<rparr>)) ''hello'' =
        buildCommand L (Some options_example) ''hello'' \<and>
        fst (QueryConnect host_ok L (NewClient (Some \<lparr>CLIPath = [], ClientCWD = ''/tmp''\<rparr>))
               ''hello''
               (Some (options_example\<lparr>MaxThinkingTokens := 8000, McpTools := [''search''],
                                      CWD := ''/srv''\<rparr>))) = None \<and>
        (\<exists>c. cmd (snd (QueryConnect host_ok L
                         (NewClient (Some \<lparr>CLIPath = [], ClientCWD = ''/tmp''\<rparr>)) ''hello''
                         (Some (options_example\<lparr>MaxThinkingTokens := 8000,
                                  McpTools := [''search''], CWD := ''/srv''\<rparr>)))) = Some c \<and>
             cmdDir c = ''/tmp'')"
proof
  fix L
  let ?o1 = "options_example\<lparr>MaxThinkingTokens := 8000, McpTools := [''search''],
                              CWD := ''/srv''\<rparr>"
  let ?client = "NewClient (Some \<lparr>CLIPath = [], ClientCWD = ''/tmp''\<rparr>)"
  have eq: "?o1\<lparr>MaxThinkingTokens := MaxThinkingTokens options_example,
                 McpTools := McpTools options_example, CWD := CWD options_example\<rparr> =
            options_example"
    by (simp add: options_example_def)
  have ok: "fst (QueryConnect host_ok L ?client ''hello'' (Some ?o1)) = None"
    by (simp add: QueryConnect_def Connect_def NewClient_def NewSubprocessTransport_def
        host_ok_def host_no_start_def Let_def)
  from unused_query_options[of ?o1 options_example L "''hello''" host_ok ?client
      "\<lparr>CLIPath = [], ClientCWD = ''/tmp''\<rparr>" "Some ?o1"] eq ok
  show "buildCommand L (Some ?o1) ''hello'' = buildCommand L (Some options_example) ''hello'' \<and>
        fst (QueryConnect host_ok L ?client ''hello'' (Some ?o1)) = None \<and>
        (\<exists>c. cmd (snd (QueryConnect host_ok L ?client ''hello'' (Some ?o1))) = Some c \<and>
             cmdDir c = ''/tmp'')"
    by simp
qed

text \<open>
  Claim C8. Once the executable is resolved, \<open>Connect\<close> fails with a
  \<^verbatim>\<open>CLIConnectionError\<close> when a working directory is configured and \<^verbatim>\<open>os.Stat\<close>
  rejects it; no process is started then, and the outcome does not depend on what
  starting one would do. When the check and the three pipes pass and the start of
  the process fails, \<open>Connect\<close> fails with \<^verbatim>\<open>CLINotFoundError\<close> if the base name of
  the resolved path is \<^verbatim>\<open>claude\<close>, and with a \<^verbatim>\<open>ProcessError\<close> of exit code 0 and empty
  stderr if it is not.
\<close>

theorem connect_failures:
  "resolvedPath H t = Inr path \<longrightarrow>
     (cwd t \<noteq> [] \<and> osStat H (cwd t) = Some e \<longrightarrow>
        fst (Connect H L t options prompt) =
          Some (CLIConnectionError (''Working directory does not exist: '' @ cwd t) (Some e)) \<and>
        \<not> processStarted (snd (Connect H L t options prompt)) \<and>
        (\<forall>s. Connect (H\<lparr>Start := s\<rparr>) L t options prompt = Connect H L t options prompt)) \<and>
     ((cwd t = [] \<or> osStat H (cwd t) = None) \<and>
      StdinPipe H = None \<and> StdoutPipe H = None \<and> StderrPipe H = None \<and>
      Start H (commandAtStart H L t path options prompt) = Some e \<longrightarrow>
        fst (Connect H L t options prompt) =
          Some (if filepathBase L path = ''claude''
                then CLINotFoundError path (Some e)
                else ProcessError ''failed to start CLI process'' 0 [] (Some e)) \<and>
        ((\<exists>p c. fst (Connect H L t options prompt) = Some (CLINotFoundError p c)) \<longleftrightarrow>
           filepathBase L path = ''claude'') \<and>
        \<not> processStarted (snd (Connect H L t options prompt)))"
proof (intro impI conjI allI)
  assume path: "resolvedPath H t = Inr path"
    and "cwd t \<noteq> [] \<and> osStat H (cwd t) = Some e"
  then have wd: "workingDirError H t = Some e"
    by (simp add: workingDirError_def)
  note c = Connect_workdir[OF path wd, of L options prompt]
  show "fst (Connect H L t options prompt) =
          Some (CLIConnectionError (''Working directory does not exist: '' @ cwd t) (Some e))"
    by (simp add: c)
  show "\<not> processStarted (snd (Connect H L t options prompt))"
    by (simp add: c processStarted_def)
  fix s
  have "resolvedPath (H\<lparr>Start := s\<rparr>) t = Inr path"
    using path by (simp add: resolvedPath_def split: if_splits)
  moreover have "workingDirError (H\<lparr>Start := s\<rparr>) t = Some e"
    using wd by (simp add: workingDirError_def split: if_splits)
  ultimately show "Connect (H\<lparr>Start := s\<rparr>) L t options prompt = Connect H L t options prompt"
    using Connect_workdir[of "H\<lparr>Start := s\<rparr>" t path e L options prompt] c by simp
next
  assume path: "resolvedPath H t = Inr path"
    and h: "(cwd t = [] \<or> osStat H (cwd t) = None) \<and>
            StdinPipe H = None \<and> StdoutPipe H = None \<and> StderrPipe H = None \<and>
            Start H (commandAtStart H L t path options prompt) = Some e"
  from h have wd: "workingDirError H t = None"
    by (auto simp add: workingDirError_def)
  from h have pipes: "StdinPipe H = None" "StdoutPipe H = None" "StderrPipe H = None"
    and st: "Start H (commandAtStart H L t path options prompt) = Some e"
    by simp_all
  show r: "fst (Connect H L t options prompt) =
          Some (if filepathBase L path = ''claude''
                then CLINotFoundError path (Some e)
                else ProcessError ''failed to start CLI process'' 0 [] (Some e))"
    by (rule Connect_start_fails[OF path wd pipes st])
  show "(\<exists>p c. fst (Connect H L t options prompt) = Some (CLINotFoundError p c)) \<longleftrightarrow>
          filepathBase L path = ''claude''"
    by (simp add: r)
  show "\<not> processStarted (snd (Connect H L t options prompt))"
    by (rule Connect_start_fails_not_started[OF path wd pipes st])
qed

text \<open>
  The theorem on a host where no process starts: a transport with a missing working
  directory; one whose discovered executable is \<^verbatim>\<open>/usr/local/bin/claude\<close>; and one
  with the configured executable \<^verbatim>\<open>/opt/agent/run\<close>.
\<close>

theorem connect_failures_witness:
  "fst (Connect host_no_start exampleLib (NewSubprocessTransport [] ''/missing'') None ''hello'') =
     Some (CLIConnectionError ''Working directory does not exist: /missing''
             (Some ''no such file or directory'')) \<and>
   fst (Connect host_no_start exampleLib (NewSubprocessTransport [] ''/tmp'') None ''hello'') =
     Some (CLINotFoundError ''/usr/local/bin/claude'' (Some ''exec format error'')) \<and>
   fst (Connect host_no_start exampleLib (NewSubprocessTransport ''/opt/agent/run'' [])
          None ''hello'') =
     Some (ProcessError ''failed to start CLI process'' 0 [] (Some ''exec format error''))"
proof -
  let ?t1 = "NewSubprocessTransport [] ''/missing''"
  let ?t2 = "NewSubprocessTransport [] ''/tmp''"
  let ?t3 = "NewSubprocessTransport ''/opt/agent/run'' []"
  have p1: "resolvedPath host_no_start ?t1 = Inr ''/usr/local/bin/claude''"
    and p2: "resolvedPath host_no_start ?t2 = Inr ''/usr/local/bin/claude''"
    and p3: "resolvedPath host_no_start ?t3 = Inr ''/opt/agent/run''"
    by (simp_all add: resolvedPath_def NewSubprocessTransport_def host_no_start_def)
  have b2: "filepathBase exampleLib ''/usr/local/bin/claude'' = ''claude''"
    and b3: "filepathBase exampleLib ''/opt/agent/run'' = ''run''"
    by (simp_all add: exampleLib_def baseUnix_def)
  have h1: "cwd ?t1 \<noteq> [] \<and> osStat host_no_start (cwd ?t1) = Some ''no such file or directory''"
    by (simp add: NewSubprocessTransport_def host_no_start_def)
  have h2: "(cwd ?t2 = [] \<or> osStat host_no_start (cwd ?t2) = None) \<and>
            StdinPipe host_no_start = None \<and> StdoutPipe host_no_start = None \<and>
            StderrPipe host_no_start = None \<and>
            Start host_no_start
              (commandAtStart host_no_start exampleLib ?t2 ''/usr/local/bin/claude'' None
                 ''hello'') = Some ''exec format error''"
    by (simp add: NewSubprocessTransport_def host_no_start_def)
  have h3: "(cwd ?t3 = [] \<or> osStat host_no_start (cwd ?t3) = None) \<and>
            StdinPipe host_no_start = None \<and> StdoutPipe host_no_start = None \<and>
            StderrPipe host_no_start = None \<and>
            Start host_no_start
              (commandAtStart host_no_start exampleLib ?t3 ''/opt/agent/run'' None
                 ''hello'') = Some ''exec format error''"
    by (simp add: NewSubprocessTransport_def host_no_start_def)
  from connect_failures[of host_no_start ?t1 "''/usr/local/bin/claude''"
      "''no such file or directory''" exampleLib None "''hello''"] p1 h1
  have "fst (Connect host_no_start exampleLib ?t1 None ''hello'') =
     Some (CLIConnectionError ''Working directory does not exist: /missing''
             (Some ''no such file or directory''))"
    by (simp add: NewSubprocessTransport_def)
  moreover
  from connect_failures[of host_no_start ?t2 "''/usr/local/bin/claude''"
      "''exec format error''" exampleLib None "''hello''"] p2 h2 b2
  have "fst (Connect host_no_start exampleLib ?t2 None ''hello'') =
     Some (CLINotFoundError ''/usr/local/bin/claude'' (Some ''exec format error''))"
    by simp
  moreover
  from connect_failures[of host_no_start ?t3 "''/opt/agent/run''"
      "''exec format error''" exampleLib None "''hello''"] p3 h3 b3
  have "fst (Connect host_no_start exampleLib ?t3 None ''hello'') =
     Some (ProcessError ''failed to start CLI process'' 0 [] (Some ''exec format error''))"
    by simp
  ultimately show ?thesis by simp
qed

subsection \<open>The claims about the message stream\<close>

lemma lineMessage_too_long_unreachable:
  assumes "\<forall>s. length (stringsTrimSpace L s) \<le> length s"
    and "tok \<in> set (fst (scanLines ls e))"
  shows "\<not> length (stringsTrimSpace L tok) > maxBufferSize"
proof -
  from assms(2) scanLines_token_bound[of ls e] have "length tok < maxScanTokenSize"
    by blast
  moreover from assms(1) have "length (stringsTrimSpace L tok) \<le> length tok"
    by blast
  ultimately show ?thesis
    by (simp add: maxScanTokenSize_def maxBufferSize_def)
qed

text \<open>
  Claim C1. For a line the scanner delivers, within the size bound, while the context
  is not cancelled: a line that does not decode as JSON sends nothing and the loop goes
  on with the lines after it; so does an object whose \<^verbatim>\<open>type\<close> is
  \<^verbatim>\<open>control_response\<close>; an object that the parser rejects sends one User message
  \<^verbatim>\<open>Parse error: ...\<close> with the text of the error, and the loop goes on as well. With
  a context that is never cancelled the loop reaches the end of the lines, and the
  stream carries exactly the contribution of each line, in order.
\<close>

theorem receive_line_cases:
  "(\<not> cancelled (tick c) \<and> length (stringsTrimSpace L scanned) \<le> maxBufferSize \<longrightarrow>
      (jsonUnmarshal L (stringsTrimSpace L scanned) = DecodeError \<longrightarrow>
         receiveLoop L cancelled (scanned # rest) c = receiveLoop L cancelled rest (step c)) \<and>
      (jsonUnmarshal L (stringsTrimSpace L scanned) = Decoded data \<and>
       mapIndex data ''type'' = Some (JString ''control_response'') \<longrightarrow>
         receiveLoop L cancelled (scanned # rest) c = receiveLoop L cancelled rest (step c)) \<and>
      (stringsTrimSpace L scanned \<noteq> [] \<and>
       jsonUnmarshal L (stringsTrimSpace L scanned) = Decoded data \<and>
       mapIndex data ''type'' \<noteq> Some (JString ''control_response'') \<and>
       ParseMessage (floatOutOfRange L) data = Inl err \<and>
       \<not> cancelled (Suc (tick c)) \<longrightarrow>
         receiveLoop L cancelled (scanned # rest) c =
           receiveLoop L cancelled rest
             ((step (step c))\<lparr>sent := sent c @
                                [UserMessage (''Parse error: '' @ Error err)]\<rparr>))) \<and>
   (neverCancelled cancelled \<longrightarrow>
      fst (receiveLoop L cancelled toks c) \<and>
      sent (snd (receiveLoop L cancelled toks c)) =
        sent c @ List.map_filter (lineMessage L) toks)"
proof (intro conjI impI)
  assume h: "\<not> cancelled (tick c) \<and> length (stringsTrimSpace L scanned) \<le> maxBufferSize"
    and d: "jsonUnmarshal L (stringsTrimSpace L scanned) = DecodeError"
  from h d have "lineMessage L scanned = None"
    by (simp add: lineMessage_def Let_def)
  with h show "receiveLoop L cancelled (scanned # rest) c =
                 receiveLoop L cancelled rest (step c)"
    by (simp add: receiveLoop_skip del: receiveLoop.simps)
next
  assume h: "\<not> cancelled (tick c) \<and> length (stringsTrimSpace L scanned) \<le> maxBufferSize"
    and d: "jsonUnmarshal L (stringsTrimSpace L scanned) = Decoded data \<and>
            mapIndex data ''type'' = Some (JString ''control_response'')"
  from h d have "lineMessage L scanned = None"
    by (simp add: lineMessage_def Let_def)
  with h show "receiveLoop L cancelled (scanned # rest) c =
                 receiveLoop L cancelled rest (step c)"
    by (simp add: receiveLoop_skip del: receiveLoop.simps)
next
  assume h: "\<not> cancelled (tick c) \<and> length (stringsTrimSpace L scanned) \<le> maxBufferSize"
    and d: "stringsTrimSpace L scanned \<noteq> [] \<and>
            jsonUnmarshal L (stringsTrimSpace L scanned) = Decoded data \<and>
            mapIndex data ''type'' \<noteq> Some (JString ''control_response'') \<and>
            ParseMessage (floatOutOfRange L) data = Inl err \<and>
            \<not> cancelled (Suc (tick c))"
  from d have "asString (mapIndex data ''type'') \<noteq> Some ''control_response''"
    by (simp add: asString_eq_Some)
  with h d have "lineMessage L scanned = Some (UserMessage (''Parse error: '' @ Error err))"
    by (simp add: lineMessage_def Let_def)
  with h d show "receiveLoop L cancelled (scanned # rest) c =
                   receiveLoop L cancelled rest
                     ((step (step c))\<lparr>sent := sent c @
                                        [UserMessage (''Parse error: '' @ Error err)]\<rparr>)"
    by (simp add: receiveLoop_emit del: receiveLoop.simps)
next
  assume n: "neverCancelled cancelled"
  from receiveLoop_never_cancelled[OF n, of L toks c]
  show "fst (receiveLoop L cancelled toks c)"
    and "sent (snd (receiveLoop L cancelled toks c)) =
           sent c @ List.map_filter (lineMessage L) toks"
    by simp_all
qed

text \<open>
  The theorem at four lines: one that is not JSON, a \<^verbatim>\<open>control_response\<close>, an object
  of the unknown type \<^verbatim>\<open>bogus\<close> and a user message. The first two send nothing, the
  third sends the diagnostic, and the stream of all four has the diagnostic and the
  user message.
\<close>

theorem receive_line_cases_witness:
  "receiveLoop exampleLib (\<lambda>k. False) [line_not_json] \<lparr>tick = 0, sent = []\<rparr> =
     (True, \<lparr>tick = 1, sent = []\<rparr>) \<and>
   receiveLoop exampleLib (\<lambda>k. False) [line_control] \<lparr>tick = 0, sent = []\<rparr> =
     (True, \<lparr>tick = 1, sent = []\<rparr>) \<and>
   receiveLoop exampleLib (\<lambda>k. False) [line_bogus] \<lparr>tick = 0, sent = []\<rparr> =
     (True, \<lparr>tick = 2,
             sent = [UserMessage ''Parse error: Unknown message type: bogus'']\<rparr>) \<and>
   fst (receiveLoop exampleLib (\<lambda>k. False)
          [line_not_json, line_control, line_bogus, line_user] \<lparr>tick = 0, sent = []\<rparr>) \<and>
   sent (snd (receiveLoop exampleLib (\<lambda>k. False)
                [line_not_json, line_control, line_bogus, line_user]
                \<lparr>tick = 0, sent = []\<rparr>)) =
     [UserMessage ''Parse error: Unknown message type: bogus'', UserMessage ''hi'']"
proof -
  let ?c = "\<lparr>tick = 0, sent = []\<rparr> :: chan"
  let ?bogus = "Some (fmupd ''type'' (JString ''bogus'') fmempty) :: jmap option"
  let ?control = "Some (fmupd ''type'' (JString ''control_response'') fmempty) :: jmap option"
  let ?user = "Some (fmupd ''type'' (JString ''user'')
                       (fmupd ''content'' (JString ''hi'') fmempty)) :: jmap option"
  let ?err = "MessageParseError ''Unknown message type: bogus'' ?bogus"
  have trim: "stringsTrimSpace exampleLib line_not_json = line_not_json"
    "stringsTrimSpace exampleLib line_control = line_control"
    "stringsTrimSpace exampleLib line_bogus = line_bogus"
    "stringsTrimSpace exampleLib line_user = line_user"
    by (simp_all add: exampleLib_def trimASCII_def asciiSpace_def line_not_json_def
        line_control_def line_bogus_def line_user_def)
  have len: "length line_not_json \<le> maxBufferSize" "length line_control \<le> maxBufferSize"
    "length line_bogus \<le> maxBufferSize" "length line_user \<le> maxBufferSize"
    by (simp_all add: maxBufferSize_def line_not_json_def line_control_def line_bogus_def
        line_user_def)
  have dec: "jsonUnmarshal exampleLib line_not_json = DecodeError"
    "jsonUnmarshal exampleLib line_control = Decoded ?control"
    "jsonUnmarshal exampleLib line_bogus = Decoded ?bogus"
    "jsonUnmarshal exampleLib line_user = Decoded ?user"
    by (simp_all add: exampleLib_def exampleUnmarshal_def line_not_json_def line_control_def
        line_bogus_def line_user_def)
  have ne: "line_bogus \<noteq> []" "line_user \<noteq> []" "line_not_json \<noteq> []" "line_control \<noteq> []"
    by (simp_all add: line_bogus_def line_user_def line_not_json_def line_control_def)
  have ty: "mapIndex ?control ''type'' = Some (JString ''control_response'')"
    "mapIndex ?bogus ''type'' \<noteq> Some (JString ''control_response'')"
    by (simp_all add: mapIndex_def)
  have parse: "ParseMessage (floatOutOfRange exampleLib) ?bogus = Inl ?err"
    by (simp add: ParseMessage_def mapIndex_def)
  have parse_user: "ParseMessage (floatOutOfRange exampleLib) ?user = Inr (UserMessage ''hi'')"
    by (simp add: ParseMessage_def mapIndex_def parseUserMessage_def userDirect_def)
  have msg: "Error ?err = ''Unknown message type: bogus''"
    by (simp add: Error_def)
  have lm: "lineMessage exampleLib line_not_json = None"
    "lineMessage exampleLib line_control = None"
    "lineMessage exampleLib line_bogus =
       Some (UserMessage ''Parse error: Unknown message type: bogus'')"
    "lineMessage exampleLib line_user = Some (UserMessage ''hi'')"
    using len ne
    by (simp_all add: lineMessage_def Let_def trim dec parse parse_user msg mapIndex_def)
  have nc: "neverCancelled (\<lambda>k. False)"
    by (simp add: neverCancelled_def)
  from receive_line_cases[of "\<lambda>k. False" ?c exampleLib line_not_json "[]" ?control ?err "[]"]
    trim len dec
  have a: "receiveLoop exampleLib (\<lambda>k. False) [line_not_json] ?c = (True, \<lparr>tick = 1, sent = []\<rparr>)"
    by (simp add: step_def del: receiveLoop.simps(2))
  from receive_line_cases[of "\<lambda>k. False" ?c exampleLib line_control "[]" ?control ?err "[]"]
    trim len dec ty
  have b: "receiveLoop exampleLib (\<lambda>k. False) [line_control] ?c = (True, \<lparr>tick = 1, sent = []\<rparr>)"
    by (simp add: step_def del: receiveLoop.simps(2))
  from receive_line_cases[of "\<lambda>k. False" ?c exampleLib line_bogus "[]" ?bogus ?err "[]"]
    trim len dec ty ne parse
  have c: "receiveLoop exampleLib (\<lambda>k. False) [line_bogus] ?c =
     (True, \<lparr>tick = 2, sent = [UserMessage ''Parse error: Unknown message type: bogus'']\<rparr>)"
    by (simp add: step_def msg del: receiveLoop.simps(2))
  from receive_line_cases[of "\<lambda>k. False" ?c exampleLib line_bogus "[]" ?bogus ?err
      "[line_not_json, line_control, line_bogus, line_user]"] nc
  have d: "fst (receiveLoop exampleLib (\<lambda>k. False)
                  [line_not_json, line_control, line_bogus, line_user] ?c) \<and>
           sent (snd (receiveLoop exampleLib (\<lambda>k. False)
                        [line_not_json, line_control, line_bogus, line_user] ?c)) =
             [UserMessage ''Parse error: Unknown message type: bogus'', UserMessage ''hi'']"
    by (simp add: lm del: receiveLoop.simps(2))
  from a b c d show ?thesis by (simp del: receiveLoop.simps(2))
qed

text \<open>
  Claim C7. With a context that is never cancelled, the stream of a connected
  transport is the messages that come from stdout followed, when the exit code is not
  zero, by exactly one User message \<^verbatim>\<open>Process failed with exit code N: TEXT\<close> with
  the exit code and the collected stderr text; when the exit code is zero nothing
  follows them. For exit code 3 and the stderr line \<^verbatim>\<open>boom\<close> the last message is
  \<^verbatim>\<open>Process failed with exit code 3: boom\<close>.
\<close>

theorem exit_code_diagnostic:
  "neverCancelled cancelled \<and> cmd t \<noteq> None \<longrightarrow>
     (exitCodeOf (waitResult p) \<noteq> 0 \<longrightarrow>
        ReceiveMessages L cancelled t p =
          Inr (stdoutMessages L p @
               [UserMessage (''Process failed with exit code '' @
                             formatInt (exitCodeOf (waitResult p)) @ '': '' @
                             stderrOutput t p)])) \<and>
     (exitCodeOf (waitResult p) = 0 \<longrightarrow>
        ReceiveMessages L cancelled t p = Inr (stdoutMessages L p)) \<and>
     (stderr t \<and> stderrEvents p = [StderrLine ''boom''] \<and>
      waitResult p = WaitExitError (Some 3) \<longrightarrow>
        ReceiveMessages L cancelled t p =
          Inr (stdoutMessages L p @ [UserMessage ''Process failed with exit code 3: boom'']))"
proof (intro impI conjI)
  assume h: "neverCancelled cancelled \<and> cmd t \<noteq> None"
  then have n: "neverCancelled cancelled" and c: "cmd t \<noteq> None"
    by simp_all
  note r = ReceiveMessages_never_cancelled[OF n c, of L p]
  show "ReceiveMessages L cancelled t p =
          Inr (stdoutMessages L p @
               [UserMessage (''Process failed with exit code '' @
                             formatInt (exitCodeOf (waitResult p)) @ '': '' @
                             stderrOutput t p)])"
    if "exitCodeOf (waitResult p) \<noteq> 0"
    using that by (simp add: r exitDiagnostic_def)
  show "ReceiveMessages L cancelled t p = Inr (stdoutMessages L p)"
    if "exitCodeOf (waitResult p) = 0"
    using that by (simp add: r exitDiagnostic_def)
  show "ReceiveMessages L cancelled t p =
          Inr (stdoutMessages L p @ [UserMessage ''Process failed with exit code 3: boom''])"
    if "stderr t \<and> stderrEvents p = [StderrLine ''boom''] \<and>
        waitResult p = WaitExitError (Some 3)"
  proof -
    have three: "formatInt 3 = ''3''"
      by (simp add: formatInt_def digitsOf.simps)
    have "exitDiagnostic t p = [UserMessage ''Process failed with exit code 3: boom'']"
      using that
      by (simp add: exitDiagnostic_def stderrOutput_def three maxStderrSize_def)
    then show ?thesis by (simp add: r)
  qed
qed

text \<open>
  The theorem at a process that prints nothing, writes \<^verbatim>\<open>boom\<close> to stderr and exits
  with code 3, and at a process that prints one user message and exits with code 0.
\<close>

theorem exit_code_diagnostic_witness:
  "neverCancelled (\<lambda>k. False) \<and> cmd connected_transport \<noteq> None \<and>
   exitCodeOf (waitResult process_boom) = 3 \<and>
   ReceiveMessages exampleLib (\<lambda>k. False) connected_transport process_boom =
     Inr [UserMessage ''Process failed with exit code 3: boom''] \<and>
   exitCodeOf (waitResult process_clean) = 0 \<and>
   ReceiveMessages exampleLib (\<lambda>k. False) connected_transport process_clean =
     Inr [UserMessage ''hi'']"
proof -
  have n: "neverCancelled (\<lambda>k. False)"
    by (simp add: neverCancelled_def)
  have c: "cmd connected_transport \<noteq> None"
    by (simp add: connected_transport_def)
  have e1: "exitCodeOf (waitResult process_boom) = 3"
    and e2: "exitCodeOf (waitResult process_clean) = 0"
    by (simp_all add: process_boom_def process_clean_def)
  have s1: "stdoutMessages exampleLib process_boom = []"
    by (simp add: stdoutMessages_def process_boom_def)
  have b: "stderr connected_transport \<and> stderrEvents process_boom = [StderrLine ''boom''] \<and>
           waitResult process_boom = WaitExitError (Some 3)"
    by (simp add: connected_transport_def process_boom_def)
  have three: "formatInt 3 = ''3''"
    by (simp add: formatInt_def digitsOf.simps)
  have so: "stderrOutput connected_transport process_boom = ''boom''"
    by (simp add: stderrOutput_def connected_transport_def process_boom_def maxStderrSize_def)
  have short: "\<not> maxScanTokenSize \<le> length line_user"
    by (simp add: maxScanTokenSize_def line_user_def)
  have cr: "dropCR line_user = line_user"
    by (simp add: dropCR_def line_user_def)
  have lm: "lineMessage exampleLib line_user = Some (UserMessage ''hi'')"
    by (simp add: lineMessage_def Let_def exampleLib_def trimASCII_def asciiSpace_def
        exampleUnmarshal_def line_user_def line_control_def line_bogus_def maxBufferSize_def
        mapIndex_def ParseMessage_def parseUserMessage_def userDirect_def)
  have s2: "stdoutMessages exampleLib process_clean = [UserMessage ''hi'']"
    by (simp add: stdoutMessages_def process_clean_def short cr lm)
  from exit_code_diagnostic[of "\<lambda>k. False" connected_transport process_boom exampleLib] n c b
  have "ReceiveMessages exampleLib (\<lambda>k. False) connected_transport process_boom =
          Inr [UserMessage ''Process failed with exit code 3: boom'']"
    by (simp add: s1 e1 three so)
  moreover
  from exit_code_diagnostic[of "\<lambda>k. False" connected_transport process_clean exampleLib] n c e2
  have "ReceiveMessages exampleLib (\<lambda>k. False) connected_transport process_clean =
          Inr [UserMessage ''hi'']"
    by (simp add: s2)
  ultimately show ?thesis using n c e1 e2 by simp
qed

text \<open>
  Claim C4 says that a line of stdout longer than 1 MiB yields one diagnostic about
  the buffer size and that the lines after it are processed. The size check of the
  loop is there, but the scanner that feeds the loop has the default token limit of
  64 KiB: such a line ends the scan, the loop never sees it, and no later line of
  stdout is read. With a context that is never cancelled, the stream is the messages
  of the lines before the long one, then the scanner's \<^verbatim>\<open>token too long\<close> error, then
  the exit diagnostic if any; the lines after the long one have no part in it.
\<close>

theorem oversized_line_ends_scan:
  "length big > maxBufferSize \<and> (\<forall>l \<in> set pre. length l < maxScanTokenSize) \<and>
   neverCancelled cancelled \<and> cmd t \<noteq> None \<longrightarrow>
     ReceiveMessages L cancelled t (p\<lparr>stdoutLines := pre @ big # post\<rparr>) =
       Inr (List.map_filter (lineMessage L) (map dropCR pre) @
            [UserMessage ''Scanner error: bufio.Scanner: token too long''] @
            exitDiagnostic t p)"
proof
  assume h: "length big > maxBufferSize \<and> (\<forall>l \<in> set pre. length l < maxScanTokenSize) \<and>
             neverCancelled cancelled \<and> cmd t \<noteq> None"
  then have big: "length big \<ge> maxScanTokenSize"
    by (simp add: maxScanTokenSize_def maxBufferSize_def)
  from h have pre: "\<forall>l \<in> set pre. length l < maxScanTokenSize"
    and n: "neverCancelled cancelled" and c: "cmd t \<noteq> None"
    by simp_all
  have sc: "scanLines (pre @ big # post) (stdoutError p) =
              (map dropCR pre, Some ''bufio.Scanner: token too long'')"
    using scanLines_short[OF pre, of "big # post" "stdoutError p"]
      scanLines_too_long[OF big, of post "stdoutError p"]
    by simp
  have ex: "exitDiagnostic t (p\<lparr>stdoutLines := pre @ big # post\<rparr>) = exitDiagnostic t p"
    by (simp add: exitDiagnostic_def stderrOutput_def)
  show "ReceiveMessages L cancelled t (p\<lparr>stdoutLines := pre @ big # post\<rparr>) =
          Inr (List.map_filter (lineMessage L) (map dropCR pre) @
               [UserMessage ''Scanner error: bufio.Scanner: token too long''] @
               exitDiagnostic t p)"
    by (simp add: ReceiveMessages_never_cancelled[OF n c] stdoutMessages_def sc ex)
qed

text \<open>
  The theorem at a process whose first line has 1024 * 1024 + 1 bytes and whose
  second line is a user message: the stream is the scanner's error alone.
\<close>

theorem oversized_line_ends_scan_witness:
  "length oversized_line > maxBufferSize \<and>
   ReceiveMessages exampleLib (\<lambda>k. False) connected_transport process_oversized =
     Inr [UserMessage ''Scanner error: bufio.Scanner: token too long'']"
proof -
  have len: "length oversized_line > maxBufferSize"
    by (simp add: oversized_line_def maxBufferSize_def)
  have n: "neverCancelled (\<lambda>k. False)"
    by (simp add: neverCancelled_def)
  have c: "cmd connected_transport \<noteq> None"
    by (simp add: connected_transport_def)
  have p: "process_oversized = process_oversized\<lparr>stdoutLines := [] @ oversized_line # [line_user]\<rparr>"
    by (simp add: process_oversized_def)
  have ex: "exitDiagnostic connected_transport process_oversized = []"
    by (simp add: exitDiagnostic_def process_oversized_def)
  from oversized_line_ends_scan[where big = oversized_line and pre = "[]"
      and cancelled = "\<lambda>k. False" and t = connected_transport and L = exampleLib
      and p = process_oversized and post = "[line_user]"] len n c
  have "ReceiveMessages exampleLib (\<lambda>k. False) connected_transport
          (process_oversized\<lparr>stdoutLines := [] @ oversized_line # [line_user]\<rparr>) =
        Inr [UserMessage ''Scanner error: bufio.Scanner: token too long'']"
    by (simp add: ex)
  with p len show ?thesis by simp
qed

end
